theory Spec2Isabelle
  imports Main "HOL-Library.Sublist"
begin

section \<open>Bench lifecycle of frappe\_manager/site\_manager/site.py\<close>

text \<open>
  The class \<open>Bench\<close> orchestrates collaborators that are not part of the file: three
  compose projects (the bench's own, the workers' and the admin tools'), the display
  (\<open>richprint\<close>), the certificate manager, the database manager and the file system.
  The embedding keeps the methods of \<open>Bench\<close> as they are written and makes every call to
  a collaborator explicit: a method is a routine, a function from a state to a result and
  a state; the state holds the fields of the object, the list of collaborator calls issued
  so far and the collaborators' own state (the world), and an exception is the \<open>Inl\<close>
  result.
  What a collaborator answers, whether its call raises and how the call changes the world
  are given by a runtime, a parameter of every method: the theorems hold for every
  runtime unless they say otherwise.
\<close>

subsection \<open>Data\<close>

datatype SUPPORTED_SSL_TYPES = ssl_le | ssl_none

datatype FMBenchEnvType = dev | prod

record SSLCertificate =
  domain :: string
  ssl_type :: SUPPORTED_SSL_TYPES

record BenchConfig =
  root_path :: string
  environment_type :: FMBenchEnvType
  admin_pass :: string
  ssl :: SSLCertificate
  admin_tools :: bool

text \<open>The two attributes of \<open>self.workers\<close> that the bench reads.\<close>

record BenchWorkers =
  supervisor_config_path :: string
  config_dir :: string

record Bench =
  path :: string
  name :: string
  quiet :: bool
  bench_config :: BenchConfig
  workers :: BenchWorkers

definition backup_path :: "Bench \<Rightarrow> string" where
  "backup_path b = path b @ ''/backups''"

text \<open>
  The three compose projects of a bench: \<open>self.compose_project\<close>,
  \<open>self.workers.compose_project\<close> and \<open>self.admin_tools.compose_project\<close>.
\<close>

datatype compose_project = Primary | Workers | AdminTools

text \<open>
  Exceptions. \<open>Hang\<close> is not an exception of the program: it is the outcome of a
  collaborator call that never returns (following a log stream that never shows the line
  waited for); like \<open>SystemExit\<close> and \<open>KeyboardInterrupt\<close> it is caught by no
  \<open>except Exception\<close>.
\<close>

datatype error =
    BenchException string string
  | BenchRemoveDirectoryError string string
  | BenchSSLCertificateAlreadyIssued string
  | BenchSSLCertificateNotIssued string
  | BenchWorkersSupervisorConfigurtionGenerateError string
  | DockerException
  | PermissionError
  | KeyError string
  | ValueError
  | UnicodeDecodeError
  | Exception string
  | SystemExit
  | KeyboardInterrupt
  | Hang

fun is_Exception :: "error \<Rightarrow> bool" where
  "is_Exception SystemExit = False"
| "is_Exception KeyboardInterrupt = False"
| "is_Exception Hang = False"
| "is_Exception _ = True"

definition is_PermissionError :: "error \<Rightarrow> bool" where
  "is_PermissionError e = (e = PermissionError)"

definition is_DockerException :: "error \<Rightarrow> bool" where
  "is_DockerException e = (e = DockerException)"

record BackupManager =
  backup_name :: string
  backup_dir :: string

record image =
  image_name :: string
  image_tag :: string

record dir_entry =
  entry_path :: string
  entry_absolute :: string
  entry_is_file :: bool

record database_server_info =
  db_host :: string
  db_port :: int

datatype json = JStr string | JInt int

text \<open>
  The calls to collaborators, with the arguments the source passes. An optional argument
  that the source leaves out is \<open>None\<close>. \<open>GenerateCompose\<close>, \<open>CreateComposeDirs\<close> and
  \<open>Info\<close> stand for the methods \<open>generate_compose\<close> (with the export of its inputs),
  \<open>create_compose_dirs\<close> and \<open>info\<close> of the bench, which only write descriptors,
  copy directories and print: each is kept as one call, so that it may raise.
  \<open>UpdateJsonFile\<close> is the load, update and dump of a JSON file.
\<close>

datatype event =
    ChangeHead string
  | Print string
  | Warning string
  | WarningException error
  | ErrorMsg string
  | ErrorOccured error
  | RichStart string
  | RichStop
  | UpdateLive
  | StdoutPrint string
  | BuiltinPrint string
  | BuiltinPrintException error
  | LiveLines "string list"
  | LiveLinesUntil "(string \<times> string) list" bool string
  | Exit string
  | LoggerInfo string
  | LoggerError string
  | Sleep int
  | PromptAsk string "string list" "string option"
  | StartService compose_project "bool option"
  | StopService compose_project "string list option"
  | DownService compose_project bool bool
  | ComposeExec string string "string option" "string option" bool
  | ComposeLogs "string list"
  | DockerRun string string string string bool
  | RemoveSecretsFromContainer string
  | RemoveRootSecretsCompose
  | WriteToFile
  | WorkersGenerateCompose
  | AdminToolsGenerateCompose string
  | AdminToolsEnable "bool option"
  | AdminToolsDisable
  | Backup BackupManager string
  | Restore BackupManager string bool
  | SetCertificate SSLCertificate
  | GenerateCertificate
  | RemoveCertificate
  | ExportToToml BenchConfig string
  | RemoveDb string
  | RemoveUser string bool
  | Mkdir string
  | Rmtree string
  | UpdateJsonFile string "(string \<times> json) list"
  | GenerateCompose
  | CreateComposeDirs
  | Info

text \<open>
  The runtime. \<open>outcome\<close> gives, for a call and the world it is issued in, the
  exception it raises (if any) and the world it leaves. \<open>exec_result\<close> does so for
  \<open>docker.compose.exec\<close>, with the lines of its output, and \<open>logs_result\<close> for
  \<open>docker.compose.logs\<close>, with the (source, line) pairs the stream yields and whether
  the stream ends after them (a followed stream that does not end blocks). The other
  fields are the queries of the source, which read the world and leave it as it is;
  \<open>get_container_name_prefix\<close> and \<open>CLI_DIR\<close> are a helper and a constant of the
  package.
\<close>

record 'w runtime =
  outcome :: "event \<Rightarrow> 'w \<Rightarrow> error option \<times> 'w"
  exec_result :: "event \<Rightarrow> 'w \<Rightarrow> (error + string list) \<times> 'w"
  logs_result :: "event \<Rightarrow> 'w \<Rightarrow> (error + (string \<times> string) list \<times> bool) \<times> 'w"
  prompt_ask :: "event \<Rightarrow> 'w \<Rightarrow> string"
  compose_file_exists :: "compose_project \<Rightarrow> 'w \<Rightarrow> bool"
  running :: "compose_project \<Rightarrow> 'w \<Rightarrow> bool"
  get_services_running_status :: "compose_project \<Rightarrow> 'w \<Rightarrow> (string \<times> string) list"
  get_all_images :: "'w \<Rightarrow> error + (string \<times> image) list"
  path_exists :: "string \<Rightarrow> 'w \<Rightarrow> bool"
  iterdir :: "string \<Rightarrow> 'w \<Rightarrow> dir_entry list"
  backups :: "BackupManager \<Rightarrow> 'w \<Rightarrow> string list"
  certificate_manager_has_certificate :: "'w \<Rightarrow> bool"
  is_expected_worker_same_as_template :: "'w \<Rightarrow> bool"
  get_bench_db_connection_info :: "string \<Rightarrow> string \<Rightarrow> 'w \<Rightarrow> (string \<times> string) list"
  check_db_exists :: "string \<Rightarrow> 'w \<Rightarrow> bool"
  check_user_exists :: "string \<Rightarrow> 'w \<Rightarrow> bool"
  services_database_server_info :: "'w \<Rightarrow> database_server_info"
  get_container_name_prefix :: "string \<Rightarrow> string"
  CLI_DIR :: string

record 'w state =
  self :: Bench
  calls :: "event list"
  world :: "'w"

type_synonym ('w, 'a) routine = "'w state \<Rightarrow> (error + 'a) \<times> 'w state"

subsection \<open>Control flow\<close>

definition return :: "'a \<Rightarrow> ('w, 'a) routine" where
  "return a s = (Inr a, s)"

definition raise :: "error \<Rightarrow> ('w, 'a) routine" where
  "raise e s = (Inl e, s)"

definition bind :: "('w, 'a) routine \<Rightarrow> ('a \<Rightarrow> ('w, 'b) routine) \<Rightarrow> ('w, 'b) routine" where
  "bind m f s = (case m s of (Inl e, s') \<Rightarrow> (Inl e, s') | (Inr a, s') \<Rightarrow> f a s')"

text \<open>A block of statements, run in order up to the first exception.\<close>

fun block :: "('w, unit) routine list \<Rightarrow> ('w, unit) routine" where
  "block [] = return ()"
| "block (m # ms) = bind m (\<lambda>_. block ms)"

text \<open>\<open>try: body except E: handler\<close>, with \<open>catches\<close> the exceptions that \<open>E\<close> matches.\<close>

definition try_except ::
  "('w, 'a) routine \<Rightarrow> (error \<Rightarrow> bool) \<Rightarrow> (error \<Rightarrow> ('w, 'a) routine) \<Rightarrow> ('w, 'a) routine" where
  "try_except body catches handler s =
     (case body s of
        (Inl e, s') \<Rightarrow> if catches e then handler e s' else (Inl e, s')
      | (Inr a, s') \<Rightarrow> (Inr a, s'))"

text \<open>A statement that reads the object, or the world.\<close>

definition with_self :: "(Bench \<Rightarrow> ('w, 'a) routine) \<Rightarrow> ('w, 'a) routine" where
  "with_self f s = f (self s) s"

definition with_world :: "('w \<Rightarrow> ('w, 'a) routine) \<Rightarrow> ('w, 'a) routine" where
  "with_world f s = f (world s) s"

text \<open>
  A call to the display or the logger: recorded, it neither raises nor changes the world.
\<close>

definition say :: "event \<Rightarrow> ('w, unit) routine" where
  "say ev s = (Inr (), s\<lparr>calls := calls s @ [ev]\<rparr>)"

text \<open>\<open>time.sleep\<close>: a negative length raises \<open>ValueError\<close>, and nothing is slept.\<close>

definition sleep :: "int \<Rightarrow> ('w, unit) routine" where
  "sleep secs = (if secs < 0 then raise ValueError else say (Sleep secs))"

text \<open>A call to any other collaborator: recorded, then the runtime decides.\<close>

definition call :: "'w runtime \<Rightarrow> event \<Rightarrow> ('w, unit) routine" where
  "call rt ev s =
     (case outcome rt ev (world s) of
        (None, w') \<Rightarrow> (Inr (), s\<lparr>calls := calls s @ [ev], world := w'\<rparr>)
      | (Some e, w') \<Rightarrow> (Inl e, s\<lparr>calls := calls s @ [ev], world := w'\<rparr>))"

definition exec :: "'w runtime \<Rightarrow> event \<Rightarrow> ('w, string list) routine" where
  "exec rt ev s =
     (case exec_result rt ev (world s) of
        (r, w') \<Rightarrow> (r, s\<lparr>calls := calls s @ [ev], world := w'\<rparr>))"

definition logs :: "'w runtime \<Rightarrow> event \<Rightarrow> ('w, (string \<times> string) list \<times> bool) routine" where
  "logs rt ev s =
     (case logs_result rt ev (world s) of
        (r, w') \<Rightarrow> (r, s\<lparr>calls := calls s @ [ev], world := w'\<rparr>))"

definition ask :: "'w runtime \<Rightarrow> event \<Rightarrow> ('w, string) routine" where
  "ask rt ev s = (Inr (prompt_ask rt ev (world s)), s\<lparr>calls := calls s @ [ev]\<rparr>)"

text \<open>The calls a method issues when run from a state.\<close>

definition issued :: "('w, 'a) routine \<Rightarrow> 'w state \<Rightarrow> event list" where
  "issued m s = drop (length (calls s)) (calls (snd (m s)))"

subsection \<open>Strings\<close>

definition squote :: string where
  "squote = [CHR 0x27]"

text \<open>\<open>sub in line\<close>\<close>

fun substring_of :: "string \<Rightarrow> string \<Rightarrow> bool" where
  "substring_of sub [] = (sub = [])"
| "substring_of sub (c # cs) = (prefix sub (c # cs) \<or> substring_of sub cs)"

text \<open>\<open>str.lower\<close>, on ASCII\<close>

definition lower_char :: "char \<Rightarrow> char" where
  "lower_char c =
     (let n = (of_char c :: nat) in if 65 \<le> n \<and> n \<le> 90 then char_of (n + 32) else c)"

definition lower :: "string \<Rightarrow> string" where
  "lower s = map lower_char s"

text \<open>
  \<open>bytes.decode()\<close>: the bytes are decoded as UTF-8, strictly. A string here is its
  bytes, so decoding checks them and hands them on.
\<close>

definition continuation :: "nat \<Rightarrow> bool" where
  "continuation b = (128 \<le> b \<and> b \<le> 191)"

fun utf8 :: "nat list \<Rightarrow> bool" where
  "utf8 [] = True"
| "utf8 (b # bs) =
     (if b < 128 then utf8 bs
      else if 194 \<le> b \<and> b \<le> 223 then
        (case bs of c # r \<Rightarrow> continuation c \<and> utf8 r | _ \<Rightarrow> False)
      else if 224 \<le> b \<and> b \<le> 239 then
        (case bs of
           c # d # r \<Rightarrow>
             (if b = 224 then 160 \<le> c \<and> c \<le> 191
              else if b = 237 then 128 \<le> c \<and> c \<le> 159
              else continuation c)
             \<and> continuation d \<and> utf8 r
         | _ \<Rightarrow> False)
      else if 240 \<le> b \<and> b \<le> 244 then
        (case bs of
           c # d # e # r \<Rightarrow>
             (if b = 240 then 144 \<le> c \<and> c \<le> 191
              else if b = 244 then 128 \<le> c \<and> c \<le> 143
              else continuation c)
             \<and> continuation d \<and> continuation e \<and> utf8 r
         | _ \<Rightarrow> False)
      else False)"

definition decode :: "string \<Rightarrow> error + string" where
  "decode line = (if utf8 (map of_char line) then Inr line else Inl UnicodeDecodeError)"

text \<open>\<open>str\<close> of an integer\<close>

definition digit :: "nat \<Rightarrow> char" where
  "digit d = char_of (48 + d)"

function str_nat :: "nat \<Rightarrow> string" where
  "str_nat n = (if n < 10 then [digit n] else str_nat (n div 10) @ [digit (n mod 10)])"
  by pat_completeness auto
termination
  by (relation "measure id") auto

definition str_int :: "int \<Rightarrow> string" where
  "str_int i = (if i < 0 then CHR ''-'' # str_nat (nat (- i)) else str_nat (nat i))"

subsection \<open>Configuration and certificate\<close>

definition save_bench_config :: "'w runtime \<Rightarrow> ('w, unit) routine" where
  "save_bench_config rt =
     block [
       say (ChangeHead ''Saving bench config changes''),
       with_self (\<lambda>self.
         call rt (ExportToToml (bench_config self) (root_path (bench_config self)))),
       say (Print ''Saved bench config.'')]"

definition create_certificate :: "'w runtime \<Rightarrow> ('w, unit) routine" where
  "create_certificate rt =
     block [
       call rt GenerateCertificate,
       save_bench_config rt]"

definition has_certificate :: "'w runtime \<Rightarrow> ('w, bool) routine" where
  "has_certificate rt = with_world (\<lambda>w. return (certificate_manager_has_certificate rt w))"

definition set_ssl :: "SSLCertificate \<Rightarrow> ('w, unit) routine" where
  "set_ssl certificate s =
     (Inr (), s\<lparr>self := (self s)\<lparr>bench_config := (bench_config (self s))\<lparr>ssl := certificate\<rparr>\<rparr>\<rparr>)"

definition remove_certificate :: "'w runtime \<Rightarrow> ('w, unit) routine" where
  "remove_certificate rt =
     block [
       call rt RemoveCertificate,
       with_self (\<lambda>self. set_ssl \<lparr>domain = name self, ssl_type = ssl_none\<rparr>),
       save_bench_config rt]"

definition update_certificate :: "'w runtime \<Rightarrow> SSLCertificate \<Rightarrow> ('w, unit) routine" where
  "update_certificate rt certificate =
     (if ssl_type certificate = ssl_le then
        bind (has_certificate rt) (\<lambda>has.
          if has then with_self (\<lambda>self. raise (BenchSSLCertificateAlreadyIssued (name self)))
          else block [
            call rt (SetCertificate certificate),
            set_ssl certificate,
            create_certificate rt])
      else if ssl_type certificate = ssl_none then
        bind (has_certificate rt) (\<lambda>has.
          if has then remove_certificate rt
          else with_self (\<lambda>self. raise (BenchSSLCertificateNotIssued (name self))))
      else return ())"

subsection \<open>Reconciliation\<close>

definition ensure_workers_running_if_available :: "'w runtime \<Rightarrow> ('w, unit) routine" where
  "ensure_workers_running_if_available rt s =
     (if compose_file_exists rt Workers (world s) then
        if \<not> running rt Workers (world s) then
          if running rt Primary (world s) then
            call rt (StartService Workers None) s
          else return () s
        else return () s
      else return () s)"

text \<open>
  \<open>get_services_running_status\<close> answers a dict from service to status (the same value
  is handed to \<open>generate_services_table\<close> in \<open>info\<close>); it is kept as an association
  list in the dict's order. The loop \<open>for service in running_services\<close> runs over the
  dict itself, and iterating a dict yields its keys.
\<close>

fun atleast_one_service_running_loop :: "string list \<Rightarrow> bool \<Rightarrow> bool" where
  "atleast_one_service_running_loop [] atleast_one_service_running = atleast_one_service_running"
| "atleast_one_service_running_loop (service # rest) atleast_one_service_running =
     atleast_one_service_running_loop rest
       (if service = ''running'' then True else atleast_one_service_running)"

definition ensure_admin_tools_running_if_available :: "'w runtime \<Rightarrow> ('w, unit) routine" where
  "ensure_admin_tools_running_if_available rt s =
     (if compose_file_exists rt AdminTools (world s) then
        if admin_tools (bench_config (self s)) then
          if \<not> running rt AdminTools (world s) then
            if running rt Primary (world s) then
              call rt (AdminToolsEnable None) s
            else return () s
          else return () s
        else
          let running_services = get_services_running_status rt AdminTools (world s);
              atleast_one_service_running =
                atleast_one_service_running_loop (map fst running_services) False
          in if atleast_one_service_running then call rt AdminToolsDisable s
             else return () s
      else return () s)"

text \<open>The two checks at the end of \<open>Bench.__init__\<close>.\<close>

definition init :: "'w runtime \<Rightarrow> bool \<Rightarrow> bool \<Rightarrow> ('w, unit) routine" where
  "init rt workers_check admin_tools_check =
     block [
       (if workers_check then ensure_workers_running_if_available rt else return ()),
       (if admin_tools_check then ensure_admin_tools_running_if_available rt else return ())]"

subsection \<open>Worker supervisor configuration\<close>

text \<open>
  The loop of \<open>backup_workers_supervisor_conf\<close> over \<open>self.workers.config_dir.iterdir()\<close>:
  an entry that is no file is skipped, an entry whose absolute path ends with
  \<open>.fm.supervisor.conf\<close> is handed to the backup manager.
\<close>

fun backup_workers_supervisor_conf_loop ::
  "'w runtime \<Rightarrow> BackupManager \<Rightarrow> dir_entry list \<Rightarrow> ('w, unit) routine" where
  "backup_workers_supervisor_conf_loop rt backup_workers_manager [] = return ()"
| "backup_workers_supervisor_conf_loop rt backup_workers_manager (file_path # rest) =
     (if \<not> entry_is_file file_path then
        backup_workers_supervisor_conf_loop rt backup_workers_manager rest
      else if suffix ''.fm.supervisor.conf'' (entry_absolute file_path) then
        bind (call rt (Backup backup_workers_manager (entry_path file_path)))
          (\<lambda>_. backup_workers_supervisor_conf_loop rt backup_workers_manager rest)
      else backup_workers_supervisor_conf_loop rt backup_workers_manager rest)"

definition backup_workers_supervisor_conf :: "'w runtime \<Rightarrow> ('w, BackupManager) routine" where
  "backup_workers_supervisor_conf rt =
     with_self (\<lambda>self.
       let backup_workers_manager = \<lparr>backup_name = ''workers'', backup_dir = backup_path self\<rparr>
       in bind (call rt (Backup backup_workers_manager (supervisor_config_path (workers self))))
            (\<lambda>_. bind
              (with_world (\<lambda>w.
                 if path_exists rt (supervisor_config_path (workers self)) w then
                   backup_workers_supervisor_conf_loop rt backup_workers_manager
                     (iterdir rt (config_dir (workers self)) w)
                 else return ()))
              (\<lambda>_. return backup_workers_manager)))"

fun backup_restore_workers_supervisor_loop ::
  "'w runtime \<Rightarrow> BackupManager \<Rightarrow> string list \<Rightarrow> ('w, unit) routine" where
  "backup_restore_workers_supervisor_loop rt backup_manager [] = return ()"
| "backup_restore_workers_supervisor_loop rt backup_manager (backup # rest) =
     bind (call rt (Restore backup_manager backup True))
       (\<lambda>_. backup_restore_workers_supervisor_loop rt backup_manager rest)"

definition backup_restore_workers_supervisor ::
  "'w runtime \<Rightarrow> BackupManager \<Rightarrow> ('w, unit) routine" where
  "backup_restore_workers_supervisor rt backup_manager =
     bind (say (Print ''Rolling back to previous workers configuration.''))
       (\<lambda>_. with_world (\<lambda>w.
          backup_restore_workers_supervisor_loop rt backup_manager (backups rt backup_manager w)))"

definition bench_setup_supervisor_command :: string where
  "bench_setup_supervisor_command =
     ''bench setup supervisor --skip-redis --skip-supervisord --yes --user frappe''"

definition generate_split_config_command :: string where
  "generate_split_config_command = ''/scripts/divide-supervisor-conf.py config/supervisor.conf''"

text \<open>
  With \<open>stream=True\<close> the output of \<open>exec\<close> is consumed by \<open>richprint.live_lines\<close>; a
  failure of the command raises from either, and both stand inside the \<open>try\<close>.
\<close>

definition regenerate_commands :: "'w runtime \<Rightarrow> ('w, bool) routine" where
  "regenerate_commands rt =
     bind (exec rt (ComposeExec ''frappe'' bench_setup_supervisor_command
             (Some ''frappe'') (Some ''/workspace/frappe-bench'') True)) (\<lambda>output.
     bind (call rt (LiveLines output)) (\<lambda>_.
     bind (exec rt (ComposeExec ''frappe'' generate_split_config_command
             (Some ''frappe'') (Some ''/workspace/frappe-bench'') True)) (\<lambda>output.
     bind (call rt (LiveLines output)) (\<lambda>_.
     return True))))"

definition regenerate_workers_supervisor_conf :: "'w runtime \<Rightarrow> ('w, bool) routine" where
  "regenerate_workers_supervisor_conf rt =
     bind (say (ChangeHead ''Regenerating supervisor.conf.'')) (\<lambda>_.
     bind (backup_workers_supervisor_conf rt) (\<lambda>_.
     try_except
       (regenerate_commands rt)
       is_DockerException
       (\<lambda>_. bind (say (Print ''Rolling back to previous workers configuration.'')) (\<lambda>_.
          with_self (\<lambda>self.
            raise (BenchWorkersSupervisorConfigurtionGenerateError (name self)))))))"

definition sync_workers_compose :: "'w runtime \<Rightarrow> bool \<Rightarrow> ('w, unit) routine" where
  "sync_workers_compose rt force_recreate =
     bind (regenerate_workers_supervisor_conf rt) (\<lambda>_.
     with_world (\<lambda>w.
       let are_workers_not_changed = is_expected_worker_same_as_template rt w
       in if are_workers_not_changed then
            say (Print ''Workers configuration remains unchanged.'')
          else block [
            call rt WorkersGenerateCompose,
            call rt (StartService Workers (Some force_recreate))]))"

subsection \<open>Starting the bench\<close>

text \<open>
  The loop of \<open>frappe_logs_till_start\<close> when the bench is not quiet. Once the lines the
  stream yields are used up, the loop is over if the stream ends and blocks for ever if
  it does not.
\<close>

fun frappe_logs_till_start_loop :: "(string \<times> string) list \<Rightarrow> bool \<Rightarrow> ('w, unit) routine" where
  "frappe_logs_till_start_loop [] ends = (if ends then return () else raise Hang)"
| "frappe_logs_till_start_loop ((source, line) # rest) ends =
     (if \<not> source = ''exit_code'' then
        case decode line of
          Inl e \<Rightarrow> raise e
        | Inr line \<Rightarrow>
            if substring_of (lower ''Updating files:'') (lower line) then
              frappe_logs_till_start_loop rest ends
            else if substring_of (lower ''[=='') (lower line) then
              bind (say (BuiltinPrint line)) (\<lambda>_. frappe_logs_till_start_loop rest ends)
            else
              bind (say (StdoutPrint line)) (\<lambda>_.
                if substring_of (lower ''INFO supervisord started with pid'') (lower line)
                then return ()
                else frappe_logs_till_start_loop rest ends)
      else frappe_logs_till_start_loop rest ends)"

definition frappe_logs_till_start :: "'w runtime \<Rightarrow> ('w, unit) routine" where
  "frappe_logs_till_start rt =
     bind (logs rt (ComposeLogs [''frappe''])) (\<lambda>output.
       with_self (\<lambda>self.
         if quiet self then
           call rt (LiveLinesUntil (fst output) (snd output) ''INFO supervisord started with pid'')
         else frappe_logs_till_start_loop (fst output) (snd output)))"

definition common_bench_config_set :: "'w runtime \<Rightarrow> (string \<times> json) list \<Rightarrow> ('w, unit) routine" where
  "common_bench_config_set rt config =
     with_self (\<lambda>self.
       let common_bench_config_path =
             path self @ ''/workspace/frappe-bench/sites/common_site_config.json''
       in with_world (\<lambda>w.
            if \<not> path_exists rt common_bench_config_path w then
              raise (BenchException (name self) ''common_site_config.json not found.'')
            else call rt (UpdateJsonFile common_bench_config_path config)))"

definition common_site_config_data :: "'w runtime \<Rightarrow> Bench \<Rightarrow> string \<Rightarrow> int \<Rightarrow> (string \<times> json) list" where
  "common_site_config_data rt b services_db_host services_db_port =
     (let container_prefix = get_container_name_prefix rt (name b)
      in [(''socketio_port'', JStr ''80''),
          (''db_host'', JStr services_db_host),
          (''db_port'', JInt services_db_port),
          (''redis_cache'', JStr (''redis://'' @ container_prefix @ ''-redis-cache:6379'')),
          (''redis_queue'', JStr (''redis://'' @ container_prefix @ ''-redis-queue:6379'')),
          (''redis_socketio'', JStr (''redis://'' @ container_prefix @ ''-redis-cache:6379''))])"

definition sync_bench_common_site_config :: "'w runtime \<Rightarrow> string \<Rightarrow> int \<Rightarrow> ('w, unit) routine" where
  "sync_bench_common_site_config rt services_db_host services_db_port =
     with_self (\<lambda>self.
       common_bench_config_set rt
         (common_site_config_data rt self services_db_host services_db_port))"

definition start :: "'w runtime \<Rightarrow> bool \<Rightarrow> ('w, unit) routine" where
  "start rt force =
     block [
       with_world (\<lambda>w.
         let global_db_info = services_database_server_info rt w
         in sync_bench_common_site_config rt (db_host global_db_info) (db_port global_db_info)),
       say (ChangeHead ''Starting bench services''),
       call rt (StartService Primary (Some force)),
       say (Print ''Started bench services.''),
       with_world (\<lambda>w.
         if compose_file_exists rt Workers w then block [
           say (ChangeHead ''Starting bench workers services''),
           call rt (StartService Workers (Some force)),
           say (Print ''Started bench workers services.'')]
         else return ()),
       with_world (\<lambda>w.
         if compose_file_exists rt AdminTools w then block [
           say (ChangeHead ''Starting bench admin tools services''),
           call rt (StartService AdminTools (Some force)),
           say (Print ''Started bench admin tools services.'')]
         else return ()),
       say (ChangeHead ''Starting frappe server''),
       frappe_logs_till_start rt,
       say (Print ''Started frappe server.''),
       sync_workers_compose rt False]"

subsection \<open>Attached secrets\<close>

text \<open>
  \<open>remove_attached_secrets\<close>, with its three parts named: the stop of the services
  when the bench runs, the rewrite of the descriptor, and the restart.
\<close>

definition remove_attached_secrets_stop :: "'w runtime \<Rightarrow> ('w, unit) routine" where
  "remove_attached_secrets_stop rt =
     block [
       call rt (StopService Primary (Some [''frappe''])),
       with_world (\<lambda>w.
         if compose_file_exists rt Workers w then call rt (StopService Workers None)
         else return ())]"

definition remove_attached_secrets_rewrite :: "'w runtime \<Rightarrow> ('w, unit) routine" where
  "remove_attached_secrets_rewrite rt =
     block [
       call rt (RemoveSecretsFromContainer ''frappe''),
       call rt RemoveRootSecretsCompose,
       call rt WriteToFile]"

definition remove_attached_secrets_restart :: "'w runtime \<Rightarrow> ('w, unit) routine" where
  "remove_attached_secrets_restart rt =
     block [
       start rt False,
       say (ChangeHead ''Waiting till bench server has created.''),
       frappe_logs_till_start rt,
       say (Print ''Bench server has created.'')]"

definition remove_attached_secrets :: "'w runtime \<Rightarrow> ('w, unit) routine" where
  "remove_attached_secrets rt =
     bind (say (ChangeHead ''Removing bench attached secrets'')) (\<lambda>_.
     with_world (\<lambda>w0.
       let running = running rt Primary w0
       in block [
         (if running then remove_attached_secrets_stop rt else return ()),
         remove_attached_secrets_rewrite rt,
         (if running then remove_attached_secrets_restart rt else return ()),
         say (Print ''Removed bench attached secrets.'')]))"

subsection \<open>Readiness probe\<close>

definition check_command :: "Bench \<Rightarrow> int \<Rightarrow> string" where
  "check_command b retry =
     (let url = ''http://localhost'';
          headers = (if environment_type (bench_config b) = prod
                     then ''-H '' @ squote @ ''Host: '' @ name b @ squote else [])
      in ''curl -I --max-time '' @ str_int retry @ '' --connect-timeout '' @ str_int retry
           @ '' '' @ headers @ '' '' @ url)"

text \<open>
  One pass of \<open>for _ in range(retry)\<close> per \<open>Suc\<close>. The body answers whether a line of
  the output holds \<open>HTTP/1.1 200 OK\<close>; an exception of the \<open>exec\<close> is followed by
  \<open>time.sleep(interval)\<close> and the next pass. What \<open>time.sleep\<close> raises is raised in
  the handler, and leaves the probe.
\<close>

fun is_bench_created_loop :: "'w runtime \<Rightarrow> string \<Rightarrow> int \<Rightarrow> nat \<Rightarrow> ('w, bool) routine" where
  "is_bench_created_loop rt command interval 0 = return False"
| "is_bench_created_loop rt command interval (Suc n) =
     bind
       (try_except
          (bind (exec rt (ComposeExec ''frappe'' command None None False)) (\<lambda>stdout.
             return (list_ex (substring_of ''HTTP/1.1 200 OK'') stdout)))
          is_Exception
          (\<lambda>_. bind (sleep interval) (\<lambda>_. return False)))
       (\<lambda>found. if found then return True
                 else is_bench_created_loop rt command interval n)"

definition is_bench_created :: "'w runtime \<Rightarrow> int \<Rightarrow> int \<Rightarrow> ('w, bool) routine" where
  "is_bench_created rt retry interval =
     with_self (\<lambda>self.
       is_bench_created_loop rt (check_command self retry) interval (nat retry))"

subsection \<open>Removal\<close>

definition remove_database_and_user :: "'w runtime \<Rightarrow> ('w, unit) routine" where
  "remove_database_and_user rt =
     with_self (\<lambda>self. with_world (\<lambda>w0.
       let bench_db_info = get_bench_db_connection_info rt (name self) (path self) w0
       in bind (say (ChangeHead ''Removing bench db and db users'')) (\<lambda>_.
          case map_of bench_db_info ''name'' of
            None \<Rightarrow> return ()
          | Some db_name \<Rightarrow>
              (case map_of bench_db_info ''user'' of
                 None \<Rightarrow> raise (KeyError ''user'')
               | Some db_user \<Rightarrow> block [
                   with_world (\<lambda>w.
                     if \<not> check_db_exists rt db_name w then
                       say (Warning (''Bench db [blue]'' @ db_name @ ''[/blue] not found. Skipping...''))
                     else block [
                       call rt (RemoveDb db_name),
                       say (Print (''Removed bench db [blue]'' @ db_name @ ''[/blue].''))]),
                   with_world (\<lambda>w.
                     if \<not> check_user_exists rt db_user w then
                       say (Warning (''Bench db user [blue]'' @ db_user @ ''[/blue] not found. Skipping...''))
                     else block [
                       call rt (RemoveUser db_user True),
                       say (Print (''Removed bench db users [blue]'' @ db_user @ ''[/blue].''))])]))))"

text \<open>
  \<open>remove_containers_and_dirs\<close>, in its two halves: the three compose projects are
  taken down, then the directory of the bench is deleted. The source writes the first
  half out three times, once per compose project, with the words below in its messages.
\<close>

fun containers_of :: "compose_project \<Rightarrow> string" where
  "containers_of Primary = ''bench''"
| "containers_of Workers = ''bench workers''"
| "containers_of AdminTools = ''bench admin tools''"

fun compose_file_of :: "compose_project \<Rightarrow> string" where
  "compose_file_of Primary = ''Bench''"
| "compose_file_of Workers = ''Bench workers''"
| "compose_file_of AdminTools = ''Bench admin tools''"

definition remove_project_containers :: "'w runtime \<Rightarrow> compose_project \<Rightarrow> ('w, unit) routine" where
  "remove_project_containers rt p =
     with_world (\<lambda>w.
       if compose_file_exists rt p w then block [
         say (ChangeHead (''Removing '' @ containers_of p @ '' containers.'')),
         call rt (DownService p True True),
         say (Print (''Removed '' @ containers_of p @ '' containers.''))]
       else say (Warning (compose_file_of p
              @ '' compose file not found. Skipping containers removal.'')))"

definition remove_containers :: "'w runtime \<Rightarrow> ('w, unit) routine" where
  "remove_containers rt =
     block [
       remove_project_containers rt Primary,
       remove_project_containers rt Workers,
       remove_project_containers rt AdminTools]"

definition chown_command :: string where
  "chown_command = ''-c '' @ squote @ ''chown -R frappe:frappe .'' @ squote"

definition remove_dirs :: "'w runtime \<Rightarrow> ('w, unit) routine" where
  "remove_dirs rt =
     block [
       say (ChangeHead ''Removing all bench files and directories.''),
       try_except
         (with_self (\<lambda>self. call rt (Rmtree (path self))))
         is_PermissionError
         (\<lambda>_. try_except
            (with_self (\<lambda>self. with_world (\<lambda>w.
               case get_all_images rt w of
                 Inl e \<Rightarrow> raise e
               | Inr images \<Rightarrow>
                   (case map_of images ''frappe'' of
                      Some frappe_image \<Rightarrow> block [
                        call rt (DockerRun
                          (image_name frappe_image @ '':'' @ image_tag frappe_image)
                          ''/bin/sh'' chown_command
                          (path self @ ''/workspace:/workspace'') False),
                        call rt (Rmtree (path self))]
                    | None \<Rightarrow> return ()))))
            is_Exception
            (\<lambda>_. with_self (\<lambda>self.
               raise (BenchRemoveDirectoryError (name self) (path self))))),
       say (Print ''Removed all bench files and directories.'')]"

definition remove_containers_and_dirs :: "'w runtime \<Rightarrow> ('w, unit) routine" where
  "remove_containers_and_dirs rt = block [remove_containers rt, remove_dirs rt]"

text \<open>
  The prompt of \<open>remove_bench\<close> is kept without its leading emoji. The answer of
  \<open>richprint.prompt_ask\<close> is the runtime's.
\<close>

definition remove_bench_params :: "Bench \<Rightarrow> bool \<Rightarrow> event" where
  "remove_bench_params b default_choice =
     PromptAsk
       (''Do you want to remove [bold][green]'' @ squote @ name b @ squote @ ''[/bold][/green]'')
       [''yes'', ''no'']
       (if default_choice then Some ''no'' else None)"

definition remove_bench :: "'w runtime \<Rightarrow> bool \<Rightarrow> ('w, bool) routine" where
  "remove_bench rt default_choice =
     with_self (\<lambda>self.
       bind (ask rt (remove_bench_params self default_choice)) (\<lambda>continue_remove.
         if continue_remove = ''no'' then return False
         else
           bind (say (RichStart ''Removing bench'')) (\<lambda>_.
           bind (try_except (remove_certificate rt) is_Exception
                   (\<lambda>e. say (WarningException e))) (\<lambda>_.
           bind (remove_database_and_user rt) (\<lambda>_.
           bind (remove_containers_and_dirs rt) (\<lambda>_.
           return True))))))"

subsection \<open>Creation\<close>

text \<open>
  \<open>sync_admin_tools_compose\<close> hands on what \<open>enable\<close> answers, which \<open>create\<close>, its
  only caller here, drops; the answer is left out.
\<close>

definition sync_admin_tools_compose :: "'w runtime \<Rightarrow> ('w, unit) routine" where
  "sync_admin_tools_compose rt =
     block [
       with_world (\<lambda>w.
         call rt (AdminToolsGenerateCompose (db_host (services_database_server_info rt w)))),
       call rt (AdminToolsEnable (Some True))]"

definition restart_command :: string where
  "restart_command = ''supervisorctl -c /opt/user/supervisord.conf restart all''"

definition restart_frappe_server :: "'w runtime \<Rightarrow> ('w, unit) routine" where
  "restart_frappe_server rt =
     block [
       say (ChangeHead ''Restarting frappe server''),
       try_except
         (bind (exec rt (ComposeExec ''frappe'' restart_command None None False)) (\<lambda>_. return ()))
         is_DockerException
         (\<lambda>e. bind (say (BuiltinPrintException e)) (\<lambda>_.
            raise (BenchException ''frappe'' ''Faild to restart frappe server.''))),
       say (Print ''Restarted frappe server.'')]"

text \<open>
  The body of the \<open>try\<close> of \<open>create\<close>, in three parts: the steps up to the workers'
  configuration, the site status check, and the steps after it. The readiness probe runs
  with its defaults, 60 passes one second apart.
\<close>

definition create_site_status_check :: "'w runtime \<Rightarrow> ('w, unit) routine" where
  "create_site_status_check rt =
     bind (say (ChangeHead ''Commencing site status check on bench site.'')) (\<lambda>_.
     bind (is_bench_created rt 60 1) (\<lambda>created.
       if \<not> created then raise (Exception ''Bench site is inactive or unresponsive.'')
       else say (Print ''Bench site is active and responding.'')))"

definition create_after_status_check :: "'w runtime \<Rightarrow> ('w, unit) routine" where
  "create_after_status_check rt =
     block [
       remove_attached_secrets rt,
       with_self (\<lambda>self. say (LoggerInfo (name self @ '': Bench site is active and responding.''))),
       create_certificate rt,
       say (ChangeHead ''Configuring bench admin tools.''),
       with_self (\<lambda>self.
         if admin_tools (bench_config self) then block [
           sync_admin_tools_compose rt,
           restart_frappe_server rt]
         else return ()),
       say (Print ''Cofigured bench admin tools.''),
       call rt Info,
       save_bench_config rt,
       with_self (\<lambda>self.
         if \<not> substring_of ''.localhost'' (name self) then
           say (Print ''Please note that You will have to add a host entry to your system's hosts file to access the bench locally.'')
         else return ())]"

text \<open>
  \<open>richprint.exit\<close> does not return: whatever it raises, or else \<open>SystemExit\<close>, ends
  the creation of a template bench.
\<close>

definition create_start :: "'w runtime \<Rightarrow> bool \<Rightarrow> ('w, unit) routine" where
  "create_start rt is_template_bench =
     block [
       say (ChangeHead ''Creating Bench Directory''),
       with_self (\<lambda>self. call rt (Mkdir (path self))),
       say (ChangeHead ''Generating bench compose''),
       call rt GenerateCompose,
       call rt CreateComposeDirs,
       (if is_template_bench then block [
          remove_attached_secrets rt,
          with_self (\<lambda>self. call rt (Exit (''Created template bench: '' @ name self))),
          raise SystemExit]
        else return ()),
       say (ChangeHead ''Starting bench services''),
       call rt (StartService Primary (Some True)),
       say (Print ''Started bench services.''),
       say (ChangeHead ''Creating bench and bench site.''),
       frappe_logs_till_start rt,
       say (Print ''Bench and bench site created.''),
       say (ChangeHead ''Configuring bench workers.''),
       sync_workers_compose rt True,
       say (ChangeHead ''Configuring bench workers.''),
       say UpdateLive]"

definition create_body :: "'w runtime \<Rightarrow> bool \<Rightarrow> ('w, unit) routine" where
  "create_body rt is_template_bench =
     block [
       create_start rt is_template_bench,
       create_site_status_check rt,
       create_after_status_check rt]"

definition create_handler :: "'w runtime \<Rightarrow> error \<Rightarrow> ('w, unit) routine" where
  "create_handler rt e =
     block [
       say RichStop,
       say (ErrorOccured e),
       with_self (\<lambda>self. say (LoggerError (name self @ '': NOT WORKING''))),
       say (ErrorMsg (''There has been some error creating/starting the bench.'' @ [CHR 0x0A]
              @ '':mag: Please check the logs at '' @ CLI_DIR rt @ ''/logs/fm.log'')),
       with_self (\<lambda>self. with_world (\<lambda>w.
         if path_exists rt (path self) w then
           bind (remove_bench rt False) (\<lambda>remove_status.
             if \<not> remove_status then call rt Info else return ())
         else return ()))]"

definition create :: "'w runtime \<Rightarrow> bool \<Rightarrow> ('w, unit) routine" where
  "create rt is_template_bench =
     try_except (create_body rt is_template_bench) is_Exception (create_handler rt)"

subsection \<open>Kinds of calls\<close>

definition is_start :: "event \<Rightarrow> bool" where
  "is_start ev = (case ev of StartService p force \<Rightarrow> True | _ \<Rightarrow> False)"

definition is_stop :: "event \<Rightarrow> bool" where
  "is_stop ev = (case ev of StopService p services \<Rightarrow> True | _ \<Rightarrow> False)"

definition is_down :: "event \<Rightarrow> bool" where
  "is_down ev = (case ev of DownService p orphans volumes \<Rightarrow> True | _ \<Rightarrow> False)"

definition is_rewrite :: "event \<Rightarrow> bool" where
  "is_rewrite ev =
     (case ev of RemoveSecretsFromContainer c \<Rightarrow> True | RemoveRootSecretsCompose \<Rightarrow> True
      | WriteToFile \<Rightarrow> True | _ \<Rightarrow> False)"

definition is_warning :: "event \<Rightarrow> bool" where
  "is_warning ev = (case ev of Warning t \<Rightarrow> True | _ \<Rightarrow> False)"

definition is_restore :: "event \<Rightarrow> bool" where
  "is_restore ev = (case ev of Restore m b force \<Rightarrow> True | _ \<Rightarrow> False)"

definition is_backup :: "event \<Rightarrow> bool" where
  "is_backup ev = (case ev of Backup m p \<Rightarrow> True | _ \<Rightarrow> False)"

definition is_exec :: "event \<Rightarrow> bool" where
  "is_exec ev = (case ev of ComposeExec service command user workdir stream \<Rightarrow> True | _ \<Rightarrow> False)"

text \<open>
  A call that changes what is deployed or stored: everything but the display, the logger,
  \<open>time.sleep\<close> and the prompt.
\<close>

definition is_display :: "event \<Rightarrow> bool" where
  "is_display ev =
     (case ev of
        ChangeHead t \<Rightarrow> True | Print t \<Rightarrow> True | Warning t \<Rightarrow> True
      | WarningException e \<Rightarrow> True | ErrorMsg t \<Rightarrow> True | ErrorOccured e \<Rightarrow> True
      | RichStart t \<Rightarrow> True | RichStop \<Rightarrow> True | UpdateLive \<Rightarrow> True
      | StdoutPrint t \<Rightarrow> True | BuiltinPrint t \<Rightarrow> True
      | BuiltinPrintException e \<Rightarrow> True
      | LoggerInfo t \<Rightarrow> True | LoggerError t \<Rightarrow> True | Sleep i \<Rightarrow> True
      | PromptAsk t choices dflt \<Rightarrow> True
      | _ \<Rightarrow> False)"

text \<open>Every call the method issues, from every state, is of the given kind.\<close>

definition emits_only :: "(event \<Rightarrow> bool) \<Rightarrow> ('w, 'a) routine \<Rightarrow> bool" where
  "emits_only P m = (\<forall>s. \<exists>es. calls (snd (m s)) = calls s @ es \<and> list_all P es)"

text \<open>The method leaves the fields of the object as they are.\<close>

definition keeps_self :: "('w, 'a) routine \<Rightarrow> bool" where
  "keeps_self m = (\<forall>s. self (snd (m s)) = self s)"

text \<open>
  The entries of the workers' configuration directory that
  \<open>backup_workers_supervisor_conf\<close> picks: the regular files whose absolute path ends
  with \<open>.fm.supervisor.conf\<close>.
\<close>

definition sibling_configs :: "dir_entry list \<Rightarrow> string list" where
  "sibling_configs entries =
     map entry_path (filter (\<lambda>f. entry_is_file f \<and> suffix ''.fm.supervisor.conf'' (entry_absolute f)) entries)"

subsection \<open>What a run is to issue\<close>

text \<open>
  The calls of the removal of one compose project's containers, given whether its
  descriptor exists, when taking it down returns; and the world the removal leaves.
\<close>

definition teardown_calls :: "compose_project \<Rightarrow> bool \<Rightarrow> event list" where
  "teardown_calls p present =
     (if present then
        [ChangeHead (''Removing '' @ containers_of p @ '' containers.''),
         DownService p True True,
         Print (''Removed '' @ containers_of p @ '' containers.'')]
      else [Warning (compose_file_of p @ '' compose file not found. Skipping containers removal.'')])"

definition after_teardown :: "'w runtime \<Rightarrow> compose_project \<Rightarrow> 'w \<Rightarrow> 'w" where
  "after_teardown rt p w =
     (if compose_file_exists rt p w then snd (outcome rt (DownService p True True) w) else w)"

text \<open>
  The calls with which \<open>start\<close> starts one compose project, when the start returns.
\<close>

definition start_calls :: "compose_project \<Rightarrow> bool \<Rightarrow> event list" where
  "start_calls p force =
     (case p of
        Primary \<Rightarrow>
          [ChangeHead ''Starting bench services'',
           StartService Primary (Some force),
           Print ''Started bench services.'']
      | Workers \<Rightarrow>
          [ChangeHead ''Starting bench workers services'',
           StartService Workers (Some force),
           Print ''Started bench workers services.'']
      | AdminTools \<Rightarrow>
          [ChangeHead ''Starting bench admin tools services'',
           StartService AdminTools (Some force),
           Print ''Started bench admin tools services.''])"

text \<open>
  The call with which \<open>start\<close> begins: the update of the common site configuration
  with the address of the global database and the names of the bench's redis services.
\<close>

definition config_update :: "'w runtime \<Rightarrow> Bench \<Rightarrow> 'w \<Rightarrow> event" where
  "config_update rt b w =
     (let global_db_info = services_database_server_info rt w
      in UpdateJsonFile (path b @ ''/workspace/frappe-bench/sites/common_site_config.json'')
           (common_site_config_data rt b (db_host global_db_info) (db_port global_db_info)))"

subsection \<open>A bench and runtimes to run it on\<close>

definition shop :: Bench where
  "shop = \<lparr>
     path = ''/benches/shop.localhost'',
     name = ''shop.localhost'',
     quiet = True,
     bench_config = \<lparr>
       root_path = ''/benches/shop.localhost/bench_config.toml'',
       environment_type = dev,
       admin_pass = ''admin'',
       ssl = \<lparr>domain = ''shop.localhost'', ssl_type = ssl_none\<rparr>,
       admin_tools = False\<rparr>,
     workers = \<lparr>
       supervisor_config_path = ''/benches/shop.localhost/workspace/frappe-bench/config/supervisor.conf'',
       config_dir = ''/benches/shop.localhost/workspace/frappe-bench/config''\<rparr>\<rparr>"

text \<open>
  A runtime where no call raises or changes the world, no descriptor exists and nothing
  runs; the runtimes below differ from it in the fields they name.
\<close>

definition idle :: "'w runtime" where
  "idle = \<lparr>
     outcome = (\<lambda>ev w. (None, w)),
     exec_result = (\<lambda>ev w. (Inr [], w)),
     logs_result = (\<lambda>ev w. (Inr ([], True), w)),
     prompt_ask = (\<lambda>ev w. ''no''),
     compose_file_exists = (\<lambda>p w. False),
     running = (\<lambda>p w. False),
     get_services_running_status = (\<lambda>p w. []),
     get_all_images = (\<lambda>w. Inr []),
     path_exists = (\<lambda>p w. False),
     iterdir = (\<lambda>p w. []),
     backups = (\<lambda>m w. []),
     certificate_manager_has_certificate = (\<lambda>w. False),
     is_expected_worker_same_as_template = (\<lambda>w. False),
     get_bench_db_connection_info = (\<lambda>n p w. []),
     check_db_exists = (\<lambda>n w. False),
     check_user_exists = (\<lambda>n w. False),
     services_database_server_info = (\<lambda>w. \<lparr>db_host = ''global-db'', db_port = 3306\<rparr>),
     get_container_name_prefix = (\<lambda>n. takeWhile (\<lambda>c. c \<noteq> CHR ''.'') n),
     CLI_DIR = ''/fm''\<rparr>"

definition fresh :: "unit state" where
  "fresh = \<lparr>self = shop, calls = [], world = ()\<rparr>"

text \<open>Every descriptor exists and only the primary group runs.\<close>

definition workers_due :: "unit runtime" where
  "workers_due = idle\<lparr>
     compose_file_exists := (\<lambda>p w. True),
     running := (\<lambda>p w. p = Primary)\<rparr>"

text \<open>Every descriptor exists and nothing runs.\<close>

definition all_stopped :: "unit runtime" where
  "all_stopped = idle\<lparr>compose_file_exists := (\<lambda>p w. True)\<rparr>"

text \<open>The admin tools' descriptor exists and both of their services report \<open>running\<close>.\<close>

definition admin_tools_up :: "unit runtime" where
  "admin_tools_up = idle\<lparr>
     compose_file_exists := (\<lambda>p w. True),
     get_services_running_status :=
       (\<lambda>p w. [(''mailhog'', ''running''), (''adminer'', ''running'')])\<rparr>"

text \<open>Only the descriptor of the primary group exists.\<close>

definition only_primary :: "unit runtime" where
  "only_primary = idle\<lparr>compose_file_exists := (\<lambda>p w. p = Primary)\<rparr>"

text \<open>
  The directory of the bench exists, deleting it raises \<open>PermissionError\<close>, and the
  compose file names no image for a service \<open>frappe\<close>.
\<close>

definition undeletable :: "unit runtime" where
  "undeletable = idle\<lparr>
     outcome := (\<lambda>ev w. case ev of Rmtree p \<Rightarrow> (Some PermissionError, w) | _ \<Rightarrow> (None, w)),
     path_exists := (\<lambda>p w. True)\<rparr>"

text \<open>Every \<open>exec\<close> into the bench fails.\<close>

definition unreachable :: "unit runtime" where
  "unreachable = idle\<lparr>exec_result := (\<lambda>ev w. (Inl DockerException, w))\<rparr>"

text \<open>The commands that stream their output succeed; every other \<open>exec\<close> fails.\<close>

definition site_down :: "unit runtime" where
  "site_down = idle\<lparr>
     exec_result := (\<lambda>ev w.
       case ev of
         ComposeExec service command user workdir stream \<Rightarrow>
           if stream then (Inr [], w) else (Inl DockerException, w)
       | _ \<Rightarrow> (Inr [], w))\<rparr>"

text \<open>
  The primary group runs, the workers' descriptor exists, the files of the bench are in
  place and the workers' configuration is the materialized one.
\<close>

definition live :: "unit runtime" where
  "live = idle\<lparr>
     running := (\<lambda>p w. p = Primary),
     compose_file_exists := (\<lambda>p w. p \<noteq> AdminTools),
     path_exists := (\<lambda>p w. True),
     is_expected_worker_same_as_template := (\<lambda>w. True)\<rparr>"

text \<open>
  No \<open>supervisor.conf\<close>, and one generated configuration of a worker beside where it
  would be.
\<close>

definition orphaned_siblings :: "unit runtime" where
  "orphaned_siblings = idle\<lparr>iterdir := (\<lambda>p w. [\<lparr>
      entry_path = ''/benches/shop.localhost/workspace/frappe-bench/config/frappe-bench-frappe-short-worker.fm.supervisor.conf'',
      entry_absolute = ''/benches/shop.localhost/workspace/frappe-bench/config/frappe-bench-frappe-short-worker.fm.supervisor.conf'',
      entry_is_file = True\<rparr>])\<rparr>"

text \<open>
  \<open>supervisor.conf\<close> exists, its directory holds a worker's configuration, a directory
  of such a name and \<open>supervisor.conf\<close> itself, and the command that splits the
  configuration fails.
\<close>

definition split_fails :: "unit runtime" where
  "split_fails = idle\<lparr>
     path_exists := (\<lambda>p w. True),
     iterdir := (\<lambda>p w. [
       \<lparr>entry_path = ''config/short.fm.supervisor.conf'',
         entry_absolute = ''/benches/shop.localhost/workspace/frappe-bench/config/short.fm.supervisor.conf'',
         entry_is_file = True\<rparr>,
       \<lparr>entry_path = ''config/old.fm.supervisor.conf'',
         entry_absolute = ''/benches/shop.localhost/workspace/frappe-bench/config/old.fm.supervisor.conf'',
         entry_is_file = False\<rparr>,
       \<lparr>entry_path = ''config/supervisor.conf'',
         entry_absolute = ''/benches/shop.localhost/workspace/frappe-bench/config/supervisor.conf'',
         entry_is_file = True\<rparr>]),
     exec_result := (\<lambda>ev w.
       if ev = ComposeExec ''frappe'' generate_split_config_command
                 (Some ''frappe'') (Some ''/workspace/frappe-bench'') True
       then (Inl DockerException, w) else (Inr [], w))\<rparr>"

text \<open>
  Modelled from the spec: the certificate manager (\<open>SSLCertificateManager\<close> of
  \<open>frappe_manager.ssl_manager\<close>, which is not part of the file). The spec gives it the
  operations issue, revoke and \<open>hasCertificate\<close>, at most one active certificate per
  bench, and no certificate for the type none: the manager holds the certificate it was
  given and whether one is issued for it; issuing a certificate of type none issues
  nothing.
\<close>

record certificate_manager =
  certificate :: SSLCertificate
  active :: bool

definition certificate_backend :: "certificate_manager runtime" where
  "certificate_backend = idle\<lparr>
     outcome := (\<lambda>ev cm.
       case ev of
         SetCertificate c \<Rightarrow> (None, cm\<lparr>certificate := c\<rparr>)
       | GenerateCertificate \<Rightarrow>
           (None, if ssl_type (certificate cm) = ssl_none then cm else cm\<lparr>active := True\<rparr>)
       | RemoveCertificate \<Rightarrow> (None, cm\<lparr>active := False\<rparr>)
       | _ \<Rightarrow> (None, cm)),
     certificate_manager_has_certificate := active\<rparr>"

definition shop_le :: SSLCertificate where
  "shop_le = \<lparr>domain = ''shop.localhost'', ssl_type = ssl_le\<rparr>"

definition shop_none :: SSLCertificate where
  "shop_none = \<lparr>domain = ''shop.localhost'', ssl_type = ssl_none\<rparr>"

definition unissued :: "certificate_manager state" where
  "unissued = \<lparr>self = shop, calls = [], world = \<lparr>certificate = shop_none, active = False\<rparr>\<rparr>"

text \<open>The comparison of the workers' configuration reports no change.\<close>

definition workers_unchanged :: "unit runtime" where
  "workers_unchanged = idle\<lparr>is_expected_worker_same_as_template := (\<lambda>w. True)\<rparr>"

text \<open>Every descriptor exists and taking a compose project down fails.\<close>

definition down_fails :: "unit runtime" where
  "down_fails = idle\<lparr>
     compose_file_exists := (\<lambda>p w. True),
     outcome := (\<lambda>ev w.
       case ev of DownService p orphans volumes \<Rightarrow> (Some DockerException, w) | _ \<Rightarrow> (None, w))\<rparr>"

section \<open>Properties\<close>

subsection \<open>Control flow\<close>

lemma issued_call [simp]: "issued (call rt ev) s = [ev]"
  by (simp add: issued_def call_def split: prod.splits option.splits)

lemma issued_return [simp]: "issued (return a) s = []"
  by (simp add: issued_def return_def)

lemmas run_simps = bind_def return_def raise_def say_def call_def exec_def logs_def ask_def
  with_self_def with_world_def try_except_def issued_def Let_def

named_theorems emits

lemma emits_only_issued:
  assumes "emits_only P m"
  shows "calls (snd (m s)) = calls s @ issued m s" and "list_all P (issued m s)"
proof -
  from assms obtain es where es: "calls (snd (m s)) = calls s @ es" "list_all P es"
    unfolding emits_only_def by blast
  then have "issued m s = es" by (simp add: issued_def)
  with es show "calls (snd (m s)) = calls s @ issued m s" and "list_all P (issued m s)"
    by simp_all
qed

lemma emits_only_mono:
  "emits_only P m \<Longrightarrow> (\<And>ev. P ev \<Longrightarrow> Q ev) \<Longrightarrow> emits_only Q m"
  unfolding emits_only_def list_all_iff by blast

lemma emits_only_return [emits]: "emits_only P (return a)"
  by (simp add: emits_only_def return_def)

lemma emits_only_raise [emits]: "emits_only P (raise e)"
  by (simp add: emits_only_def raise_def)

lemma emits_only_say [emits]: "P ev \<Longrightarrow> emits_only P (say ev)"
  by (simp add: emits_only_def say_def)

lemma emits_only_call [emits]: "P ev \<Longrightarrow> emits_only P (call rt ev)"
  by (auto simp: emits_only_def call_def split: prod.splits option.splits)

lemma emits_only_exec [emits]: "P ev \<Longrightarrow> emits_only P (exec rt ev)"
  by (auto simp: emits_only_def exec_def split: prod.splits)

lemma emits_only_logs [emits]: "P ev \<Longrightarrow> emits_only P (logs rt ev)"
  by (auto simp: emits_only_def logs_def split: prod.splits)

lemma emits_only_ask [emits]: "P ev \<Longrightarrow> emits_only P (ask rt ev)"
  by (simp add: emits_only_def ask_def)

lemma emits_only_sleep [emits]: "P (Sleep secs) \<Longrightarrow> emits_only P (sleep secs)"
  by (simp add: sleep_def emits_only_say emits_only_raise)

lemma emits_only_set_ssl [emits]: "emits_only P (set_ssl c)"
  by (simp add: emits_only_def set_ssl_def)

lemma emits_only_bind [emits]:
  assumes m: "emits_only P m" and f: "\<And>a. emits_only P (f a)"
  shows "emits_only P (bind m f)"
  unfolding emits_only_def
proof
  fix s
  from m obtain es where es: "calls (snd (m s)) = calls s @ es" "list_all P es"
    unfolding emits_only_def by blast
  show "\<exists>es. calls (snd (bind m f s)) = calls s @ es \<and> list_all P es"
  proof (cases "m s")
    case (Pair r s')
    show ?thesis
    proof (cases r)
      case (Inl e)
      with Pair es show ?thesis by (auto simp: bind_def)
    next
      case (Inr a)
      from f [of a] obtain es' where "calls (snd (f a s')) = calls s' @ es'" "list_all P es'"
        unfolding emits_only_def by blast
      with Pair Inr es show ?thesis by (auto simp: bind_def)
    qed
  qed
qed

lemma emits_only_block [emits]:
  "list_all (emits_only P) ms \<Longrightarrow> emits_only P (block ms)"
  by (induction ms) (auto intro: emits)

lemma emits_only_try_except [emits]:
  assumes m: "emits_only P body" and h: "\<And>e. emits_only P (handler e)"
  shows "emits_only P (try_except body catches handler)"
  unfolding emits_only_def
proof
  fix s
  from m obtain es where es: "calls (snd (body s)) = calls s @ es" "list_all P es"
    unfolding emits_only_def by blast
  show "\<exists>es. calls (snd (try_except body catches handler s)) = calls s @ es \<and> list_all P es"
  proof (cases "body s")
    case (Pair r s')
    show ?thesis
    proof (cases r)
      case (Inr a)
      with Pair es show ?thesis by (auto simp: try_except_def)
    next
      case (Inl e)
      from h [of e] obtain es' where "calls (snd (handler e s')) = calls s' @ es'" "list_all P es'"
        unfolding emits_only_def by blast
      with Pair Inl es show ?thesis by (auto simp: try_except_def)
    qed
  qed
qed

lemma emits_only_with_self [emits]:
  "(\<And>b. emits_only P (f b)) \<Longrightarrow> emits_only P (with_self f)"
  by (simp add: emits_only_def with_self_def)

lemma emits_only_with_world [emits]:
  "(\<And>w. emits_only P (f w)) \<Longrightarrow> emits_only P (with_world f)"
  by (simp add: emits_only_def with_world_def)

lemma emits_only_if [emits]:
  "(c \<Longrightarrow> emits_only P m) \<Longrightarrow> (\<not> c \<Longrightarrow> emits_only P n) \<Longrightarrow> emits_only P (if c then m else n)"
  by simp

lemma emits_only_let [emits]:
  "emits_only P (f x) \<Longrightarrow> emits_only P (Let x f)"
  by simp

named_theorems keeps

lemma keeps_selfD: "keeps_self m \<Longrightarrow> self (snd (m s)) = self s"
  by (simp add: keeps_self_def)

lemma keeps_self_return [keeps]: "keeps_self (return a)"
  by (simp add: keeps_self_def return_def)

lemma keeps_self_raise [keeps]: "keeps_self (raise e)"
  by (simp add: keeps_self_def raise_def)

lemma keeps_self_say [keeps]: "keeps_self (say ev)"
  by (simp add: keeps_self_def say_def)

lemma keeps_self_sleep [keeps]: "keeps_self (sleep secs)"
  by (simp add: sleep_def keeps_self_say keeps_self_raise)

lemma keeps_self_call [keeps]: "keeps_self (call rt ev)"
  by (auto simp: keeps_self_def call_def split: prod.splits option.splits)

lemma keeps_self_exec [keeps]: "keeps_self (exec rt ev)"
  by (auto simp: keeps_self_def exec_def split: prod.splits)

lemma keeps_self_logs [keeps]: "keeps_self (logs rt ev)"
  by (auto simp: keeps_self_def logs_def split: prod.splits)

lemma keeps_self_ask [keeps]: "keeps_self (ask rt ev)"
  by (simp add: keeps_self_def ask_def)

lemma keeps_self_bind [keeps]:
  "keeps_self m \<Longrightarrow> (\<And>a. keeps_self (f a)) \<Longrightarrow> keeps_self (bind m f)"
  unfolding keeps_self_def bind_def
  by (auto split: prod.splits sum.splits) (metis snd_conv)+

lemma keeps_self_block [keeps]: "list_all keeps_self ms \<Longrightarrow> keeps_self (block ms)"
  by (induction ms) (auto intro: keeps)

lemma keeps_self_try_except [keeps]:
  "keeps_self body \<Longrightarrow> (\<And>e. keeps_self (handler e)) \<Longrightarrow> keeps_self (try_except body catches handler)"
  unfolding keeps_self_def try_except_def
  by (auto split: prod.splits sum.splits) (metis snd_conv)+

lemma keeps_self_with_self [keeps]: "(\<And>b. keeps_self (f b)) \<Longrightarrow> keeps_self (with_self f)"
  by (simp add: keeps_self_def with_self_def)

lemma keeps_self_with_world [keeps]: "(\<And>w. keeps_self (f w)) \<Longrightarrow> keeps_self (with_world f)"
  by (simp add: keeps_self_def with_world_def)

lemma keeps_self_if [keeps]:
  "(c \<Longrightarrow> keeps_self m) \<Longrightarrow> (\<not> c \<Longrightarrow> keeps_self n) \<Longrightarrow> keeps_self (if c then m else n)"
  by simp

subsection \<open>Workers reconciliation\<close>

text \<open>
  C1. Whatever the worker descriptor's presence and the running states of the worker and
  primary groups, \<open>ensure_workers_running_if_available\<close> issues the start of the worker
  group when the worker descriptor exists, the primary group is running and the worker
  group is not, and then issues nothing else; in every other combination it issues no
  call at all, raises nothing and leaves the state as it was.
\<close>

theorem ensure_workers_running_iff:
  "(let due = compose_file_exists rt Workers (world s) \<and> running rt Primary (world s)
              \<and> \<not> running rt Workers (world s);
        ran = issued (ensure_workers_running_if_available rt) s
    in ran = (if due then [StartService Workers None] else [])
       \<and> (\<exists>force. StartService Workers force \<in> set ran) = due
       \<and> (\<not> due \<longrightarrow> ensure_workers_running_if_available rt s = (Inr (), s)))"
proof (cases "compose_file_exists rt Workers (world s) \<and> running rt Primary (world s)
              \<and> \<not> running rt Workers (world s)")
  case True
  then have "ensure_workers_running_if_available rt s = call rt (StartService Workers None) s"
    by (simp add: ensure_workers_running_if_available_def)
  then have "issued (ensure_workers_running_if_available rt) s = [StartService Workers None]"
    using issued_call [of rt "StartService Workers None" s] by (simp add: issued_def)
  with True show ?thesis by (simp add: Let_def)
next
  case False
  then have "ensure_workers_running_if_available rt s = (Inr (), s)"
    by (auto simp: ensure_workers_running_if_available_def return_def)
  moreover from this have "issued (ensure_workers_running_if_available rt) s = []"
    by (simp add: issued_def)
  ultimately show ?thesis using False by (simp add: Let_def)
qed

theorem ensure_workers_running_iff_witness:
  "issued (ensure_workers_running_if_available workers_due) fresh = [StartService Workers None]
   \<and> ensure_workers_running_if_available all_stopped fresh = (Inr (), fresh)"
  using ensure_workers_running_iff [of workers_due fresh]
    ensure_workers_running_iff [of all_stopped fresh]
  by (simp add: Let_def idle_def workers_due_def all_stopped_def)

subsection \<open>Admin tools reconciliation\<close>

lemma atleast_one_service_running_loop_eq:
  "atleast_one_service_running_loop services acc = (acc \<or> ''running'' \<in> set services)"
  by (induction services arbitrary: acc) auto

text \<open>
  The enabling side: \<open>enable\<close> is called, once, exactly when the descriptor exists, the
  flag is set, the admin tools do not run and the primary group does.
\<close>

lemma ensure_admin_tools_enable_iff:
  "(\<exists>force. AdminToolsEnable force \<in> set (issued (ensure_admin_tools_running_if_available rt) s)) =
     (compose_file_exists rt AdminTools (world s) \<and> admin_tools (bench_config (self s))
      \<and> \<not> running rt AdminTools (world s) \<and> running rt Primary (world s))"
  by (auto simp: ensure_admin_tools_running_if_available_def atleast_one_service_running_loop_eq
      Let_def issued_def return_def call_def split: prod.splits option.splits)

text \<open>
  The disabling side: \<open>disable\<close> is called exactly when the descriptor exists, the flag is
  off and a service of the admin tools is itself named \<open>running\<close>: the loop compares the
  keys of the status dict, the names of the services, with \<open>'running'\<close>, and never looks
  at a status.
\<close>

lemma ensure_admin_tools_disable_iff:
  "(AdminToolsDisable \<in> set (issued (ensure_admin_tools_running_if_available rt) s)) =
     (compose_file_exists rt AdminTools (world s) \<and> \<not> admin_tools (bench_config (self s))
      \<and> ''running'' \<in> fst ` set (get_services_running_status rt AdminTools (world s)))"
  by (auto simp: ensure_admin_tools_running_if_available_def atleast_one_service_running_loop_eq
      Let_def issued_def return_def call_def split: prod.splits option.splits)

text \<open>
  C2. A reconciliation pass is to call \<open>disable\<close> once when the flag \<open>admin_tools\<close> is
  off and a service of the admin tools reports the status \<open>running\<close>. On the bench
  \<open>shop\<close>, whose flag is off, with the admin tools' descriptor present and both of its
  services, mailhog and adminer, reporting \<open>running\<close>, the pass calls nothing and leaves
  the state as it was.
\<close>

theorem ensure_admin_tools_running_services_not_disabled:
  "admin_tools (bench_config (self fresh)) = False
   \<and> compose_file_exists admin_tools_up AdminTools (world fresh)
   \<and> map snd (get_services_running_status admin_tools_up AdminTools (world fresh))
       = [''running'', ''running'']
   \<and> ensure_admin_tools_running_if_available admin_tools_up fresh = (Inr (), fresh)"
  by (simp add: ensure_admin_tools_running_if_available_def admin_tools_up_def idle_def
      fresh_def shop_def return_def)

subsection \<open>Regeneration of the workers' supervisor configuration\<close>

lemma emits_only_backup_loop [emits]:
  "(\<And>m p. P (Backup m p)) \<Longrightarrow> emits_only P (backup_workers_supervisor_conf_loop rt mgr entries)"
  by (induction entries) (auto intro!: emits)

lemma emits_only_backup [emits]:
  "(\<And>m p. P (Backup m p)) \<Longrightarrow> emits_only P (backup_workers_supervisor_conf rt)"
  unfolding backup_workers_supervisor_conf_def by (intro emits) auto

lemma emits_only_regenerate_commands [emits]:
  "(\<And>service command user workdir stream. P (ComposeExec service command user workdir stream))
    \<Longrightarrow> (\<And>output. P (LiveLines output))
    \<Longrightarrow> emits_only P (regenerate_commands rt)"
  unfolding regenerate_commands_def by (intro emits) auto

lemma emits_only_regenerate [emits]:
  "(\<And>m p. P (Backup m p))
    \<Longrightarrow> (\<And>service command user workdir stream. P (ComposeExec service command user workdir stream))
    \<Longrightarrow> (\<And>output. P (LiveLines output)) \<Longrightarrow> (\<And>t. P (ChangeHead t)) \<Longrightarrow> (\<And>t. P (Print t))
    \<Longrightarrow> emits_only P (regenerate_workers_supervisor_conf rt)"
  unfolding regenerate_workers_supervisor_conf_def by (intro emits) auto


lemma keeps_self_backup_loop [keeps]:
  "keeps_self (backup_workers_supervisor_conf_loop rt mgr entries)"
  by (induction entries) (auto intro!: keeps)

lemma keeps_self_backup [keeps]: "keeps_self (backup_workers_supervisor_conf rt)"
  unfolding backup_workers_supervisor_conf_def Let_def by (intro keeps)

lemma backup_loop_returns:
  "backup_workers_supervisor_conf_loop rt mgr entries s = (Inr u, s')
    \<Longrightarrow> calls s' = calls s @ map (Backup mgr) (sibling_configs entries)"
proof (induction entries arbitrary: s)
  case Nil
  then show ?case by (simp add: return_def sibling_configs_def)
next
  case (Cons f entries)
  show ?case
  proof (cases "entry_is_file f \<and> suffix ''.fm.supervisor.conf'' (entry_absolute f)")
    case False
    with Cons.prems have "backup_workers_supervisor_conf_loop rt mgr entries s = (Inr u, s')"
      by (auto split: if_splits)
    from Cons.IH [OF this] False show ?thesis by (auto simp: sibling_configs_def)
  next
    case True
    with Cons.prems obtain s1 where
      s1: "call rt (Backup mgr (entry_path f)) s = (Inr (), s1)"
      and rest: "backup_workers_supervisor_conf_loop rt mgr entries s1 = (Inr u, s')"
      by (auto simp: bind_def split: prod.splits sum.splits)
    from s1 have "calls s1 = calls s @ [Backup mgr (entry_path f)]"
      by (auto simp: call_def split: prod.splits option.splits)
    with Cons.IH [OF rest] True show ?thesis by (simp add: sibling_configs_def)
  qed
qed

lemma backup_first_call:
  "\<exists>rest. issued (backup_workers_supervisor_conf rt) s =
      Backup \<lparr>backup_name = ''workers'', backup_dir = backup_path (self s)\<rparr>
        (supervisor_config_path (workers (self s))) # rest"
proof -
  let ?mgr = "\<lparr>backup_name = ''workers'', backup_dir = backup_path (self s)\<rparr>"
  let ?conf = "supervisor_config_path (workers (self s))"
  let ?k = "\<lambda>_::unit. bind
      (with_world (\<lambda>w. if path_exists rt ?conf w
         then backup_workers_supervisor_conf_loop rt ?mgr (iterdir rt (config_dir (workers (self s))) w)
         else return ()))
      (\<lambda>_. return ?mgr)"
  have eq: "backup_workers_supervisor_conf rt s = bind (call rt (Backup ?mgr ?conf)) ?k s"
    by (simp add: backup_workers_supervisor_conf_def with_self_def Let_def)
  have k: "emits_only (\<lambda>ev. True) (?k ())"
    by (intro emits) auto
  obtain r s1 where c: "call rt (Backup ?mgr ?conf) s = (r, s1)" by (cases "call rt (Backup ?mgr ?conf) s")
  then have s1: "calls s1 = calls s @ [Backup ?mgr ?conf]"
    by (auto simp: call_def split: prod.splits option.splits)
  show ?thesis
  proof (cases r)
    case (Inl e)
    with c eq s1 show ?thesis by (simp add: bind_def issued_def)
  next
    case (Inr u)
    with c eq have run: "backup_workers_supervisor_conf rt s = ?k () s1" by (simp add: bind_def)
    have "calls (snd (?k () s1)) = calls s @ (Backup ?mgr ?conf # issued (?k ()) s1)"
      using emits_only_issued(1) [OF k, of s1] s1 by simp
    then have "issued (backup_workers_supervisor_conf rt) s = Backup ?mgr ?conf # issued (?k ()) s1"
      unfolding issued_def [of "backup_workers_supervisor_conf rt"] run by simp
    then show ?thesis by blast
  qed
qed

lemma backup_returns:
  assumes "backup_workers_supervisor_conf rt s = (Inr m, s')"
  shows "m = \<lparr>backup_name = ''workers'', backup_dir = backup_path (self s)\<rparr>"
    and "issued (backup_workers_supervisor_conf rt) s =
      Backup m (supervisor_config_path (workers (self s))) #
      (let w = snd (outcome rt (Backup m (supervisor_config_path (workers (self s)))) (world s))
       in if path_exists rt (supervisor_config_path (workers (self s))) w
          then map (Backup m) (sibling_configs (iterdir rt (config_dir (workers (self s))) w))
          else [])"
proof -
  let ?mgr = "\<lparr>backup_name = ''workers'', backup_dir = backup_path (self s)\<rparr>"
  let ?conf = "supervisor_config_path (workers (self s))"
  obtain r w1 where o: "outcome rt (Backup ?mgr ?conf) (world s) = (r, w1)"
    by (cases "outcome rt (Backup ?mgr ?conf) (world s)")
  let ?s1 = "s\<lparr>calls := calls s @ [Backup ?mgr ?conf], world := w1\<rparr>"
  from assms o have r: "r = None"
    by (cases r) (auto simp: backup_workers_supervisor_conf_def with_self_def Let_def bind_def call_def)
  show m: "m = ?mgr"
    using assms o r
    by (auto simp: backup_workers_supervisor_conf_def with_self_def with_world_def Let_def bind_def
        call_def return_def split: prod.splits sum.splits if_splits)
  show "issued (backup_workers_supervisor_conf rt) s =
      Backup m ?conf #
      (let w = snd (outcome rt (Backup m ?conf) (world s))
       in if path_exists rt ?conf w
          then map (Backup m) (sibling_configs (iterdir rt (config_dir (workers (self s))) w))
          else [])"
  proof (cases "path_exists rt ?conf w1")
    case False
    with assms o r have "s' = ?s1"
      by (auto simp: backup_workers_supervisor_conf_def with_self_def with_world_def Let_def bind_def
          call_def return_def)
    with assms False o m show ?thesis by (simp add: issued_def Let_def)
  next
    case True
    with assms o r obtain u where
      "backup_workers_supervisor_conf_loop rt ?mgr (iterdir rt (config_dir (workers (self s))) w1) ?s1
        = (Inr u, s')"
      by (auto simp: backup_workers_supervisor_conf_def with_self_def with_world_def Let_def bind_def
          call_def return_def split: prod.splits sum.splits)
    from backup_loop_returns [OF this] assms True o m show ?thesis
      by (simp add: issued_def Let_def)
  qed
qed

lemma regenerate_unfold:
  "regenerate_workers_supervisor_conf rt s =
     (case backup_workers_supervisor_conf rt (s\<lparr>calls := calls s @ [ChangeHead ''Regenerating supervisor.conf.'']\<rparr>) of
        (Inl e, sb) \<Rightarrow> (Inl e, sb)
      | (Inr m, sb) \<Rightarrow>
          try_except (regenerate_commands rt) is_DockerException
            (\<lambda>_. bind (say (Print ''Rolling back to previous workers configuration.'')) (\<lambda>_.
               with_self (\<lambda>self.
                 raise (BenchWorkersSupervisorConfigurtionGenerateError (name self))))) sb)"
  by (simp add: regenerate_workers_supervisor_conf_def bind_def say_def split: prod.splits sum.splits)

lemma regenerate_handler_emits:
  "emits_only (\<lambda>ev. \<not> is_backup ev)
     (try_except (regenerate_commands rt) is_DockerException
       (\<lambda>_. bind (say (Print ''Rolling back to previous workers configuration.'')) (\<lambda>_.
          with_self (\<lambda>self.
            raise (BenchWorkersSupervisorConfigurtionGenerateError (name self))))))"
  by (intro emits) (simp_all add: is_backup_def)

text \<open>
  C6, as amended. \<open>regenerate_workers_supervisor_conf\<close> first hands
  \<open>supervisor.conf\<close> to the backup manager, whether the file exists or not, and then,
  if and only if it exists, every regular file of the configuration directory whose
  absolute path ends with \<open>.fm.supervisor.conf\<close>; the calls after the backups hold no
  backup, and there are none if a backup raised. If the regeneration commands end in a
  \<open>DockerException\<close>, the method raises
  \<open>BenchWorkersSupervisorConfigurtionGenerateError\<close> for the bench. It never asks the
  backup manager to restore anything.
\<close>

theorem regenerate_backs_up_first:
  "(let conf = supervisor_config_path (workers (self s));
        mgr = \<lparr>backup_name = ''workers'', backup_dir = backup_path (self s)\<rparr>;
        s0 = s\<lparr>calls := calls s @ [ChangeHead ''Regenerating supervisor.conf.'']\<rparr>;
        backed = issued (backup_workers_supervisor_conf rt) s0;
        rb = fst (backup_workers_supervisor_conf rt s0);
        sb = snd (backup_workers_supervisor_conf rt s0);
        w = snd (outcome rt (Backup mgr conf) (world s))
    in (\<exists>rest. issued (regenerate_workers_supervisor_conf rt) s
                 = ChangeHead ''Regenerating supervisor.conf.'' # backed @ rest
          \<and> list_all (\<lambda>ev. \<not> is_backup ev) rest \<and> (isl rb \<longrightarrow> rest = []))
       \<and> list_all is_backup backed
       \<and> (\<exists>siblings. backed = Backup mgr conf # siblings)
       \<and> (\<not> isl rb \<longrightarrow> backed = Backup mgr conf #
             (if path_exists rt conf w
              then map (Backup mgr) (sibling_configs (iterdir rt (config_dir (workers (self s))) w))
              else []))
       \<and> (\<not> isl rb \<and> fst (regenerate_commands rt sb) = Inl DockerException \<longrightarrow>
             fst (regenerate_workers_supervisor_conf rt s)
               = Inl (BenchWorkersSupervisorConfigurtionGenerateError (name (self s))))
       \<and> list_all (\<lambda>ev. \<not> is_restore ev) (issued (regenerate_workers_supervisor_conf rt) s))"
proof -
  let ?conf = "supervisor_config_path (workers (self s))"
  let ?mgr = "\<lparr>backup_name = ''workers'', backup_dir = backup_path (self s)\<rparr>"
  let ?s0 = "s\<lparr>calls := calls s @ [ChangeHead ''Regenerating supervisor.conf.'']\<rparr>"
  let ?T = "try_except (regenerate_commands rt) is_DockerException
       (\<lambda>_. bind (say (Print ''Rolling back to previous workers configuration.'')) (\<lambda>_.
          with_self (\<lambda>self.
            raise (BenchWorkersSupervisorConfigurtionGenerateError (name self)))))"
  obtain rb sb where b: "backup_workers_supervisor_conf rt ?s0 = (rb, sb)"
    by (cases "backup_workers_supervisor_conf rt ?s0")
  have backed: "calls sb = calls ?s0 @ issued (backup_workers_supervisor_conf rt) ?s0"
    and only_backups: "list_all is_backup (issued (backup_workers_supervisor_conf rt) ?s0)"
    using emits_only_issued [OF emits_only_backup [of is_backup rt], of ?s0] b
    by (simp_all add: is_backup_def)
  have self_sb: "self sb = self s"
    using keeps_selfD [OF keeps_self_backup, of rt ?s0] b by simp
  have first: "\<exists>siblings. issued (backup_workers_supervisor_conf rt) ?s0 = Backup ?mgr ?conf # siblings"
    using backup_first_call [of rt ?s0] by simp
  have whole: "\<not> isl rb \<longrightarrow> issued (backup_workers_supervisor_conf rt) ?s0 = Backup ?mgr ?conf #
      (if path_exists rt ?conf (snd (outcome rt (Backup ?mgr ?conf) (world s)))
       then map (Backup ?mgr) (sibling_configs (iterdir rt (config_dir (workers (self s)))
              (snd (outcome rt (Backup ?mgr ?conf) (world s)))))
       else [])"
  proof
    assume "\<not> isl rb"
    then obtain m where "rb = Inr m" by (cases rb) auto
    with b have r: "backup_workers_supervisor_conf rt ?s0 = (Inr m, sb)" by simp
    from backup_returns [OF r] show "issued (backup_workers_supervisor_conf rt) ?s0 = Backup ?mgr ?conf #
      (if path_exists rt ?conf (snd (outcome rt (Backup ?mgr ?conf) (world s)))
       then map (Backup ?mgr) (sibling_configs (iterdir rt (config_dir (workers (self s)))
              (snd (outcome rt (Backup ?mgr ?conf) (world s)))))
       else [])"
      by (simp add: Let_def)
  qed
  have rest: "\<exists>rest. issued (regenerate_workers_supervisor_conf rt) s
                 = ChangeHead ''Regenerating supervisor.conf.'' # issued (backup_workers_supervisor_conf rt) ?s0 @ rest
          \<and> list_all (\<lambda>ev. \<not> is_backup ev) rest \<and> (isl rb \<longrightarrow> rest = [])"
  proof (cases rb)
    case (Inl e)
    with b have "regenerate_workers_supervisor_conf rt s = (Inl e, sb)"
      by (simp add: regenerate_unfold)
    with backed Inl show ?thesis
      unfolding issued_def [of "regenerate_workers_supervisor_conf rt"] by simp
  next
    case (Inr m)
    with b have run: "regenerate_workers_supervisor_conf rt s = ?T sb"
      by (simp add: regenerate_unfold)
    have "calls (snd (?T sb)) = calls sb @ issued ?T sb"
      and nb: "list_all (\<lambda>ev. \<not> is_backup ev) (issued ?T sb)"
      using emits_only_issued [OF regenerate_handler_emits, of rt sb] by simp_all
    with backed have "issued (regenerate_workers_supervisor_conf rt) s
        = ChangeHead ''Regenerating supervisor.conf.'' # issued (backup_workers_supervisor_conf rt) ?s0 @ issued ?T sb"
      unfolding issued_def [of "regenerate_workers_supervisor_conf rt"] run by simp
    with nb Inr show ?thesis by simp
  qed
  have fails: "\<not> isl rb \<and> fst (regenerate_commands rt sb) = Inl DockerException \<longrightarrow>
             fst (regenerate_workers_supervisor_conf rt s)
               = Inl (BenchWorkersSupervisorConfigurtionGenerateError (name (self s)))"
  proof
    assume a: "\<not> isl rb \<and> fst (regenerate_commands rt sb) = Inl DockerException"
    then obtain m where "rb = Inr m" by (cases rb) auto
    with b have run: "regenerate_workers_supervisor_conf rt s = ?T sb"
      by (simp add: regenerate_unfold)
    obtain sc where c: "regenerate_commands rt sb = (Inl DockerException, sc)"
      using a by (cases "regenerate_commands rt sb") auto
    have "self sc = self sb"
    proof -
      have "keeps_self (regenerate_commands rt)"
        unfolding regenerate_commands_def by (intro keeps)
      from keeps_selfD [OF this, of sb] c show ?thesis by simp
    qed
    with c self_sb show "fst (regenerate_workers_supervisor_conf rt s)
               = Inl (BenchWorkersSupervisorConfigurtionGenerateError (name (self s)))"
      unfolding run
      by (simp add: try_except_def is_DockerException_def bind_def say_def with_self_def raise_def)
  qed
  have no_restore: "list_all (\<lambda>ev. \<not> is_restore ev) (issued (regenerate_workers_supervisor_conf rt) s)"
    using emits_only_issued(2) [OF emits_only_regenerate [of "\<lambda>ev. \<not> is_restore ev" rt], of s]
    by (simp add: is_restore_def)
  from rest only_backups first whole fails no_restore b show ?thesis
    by (simp add: Let_def)
qed

text \<open>
  The claim as it stands fails when \<open>supervisor.conf\<close> is missing: the generated
  configuration of the short worker lies in the directory and is not handed to the
  backup manager, while both regeneration commands run.
\<close>

theorem regenerate_skips_siblings_without_supervisor_conf:
  "iterdir orphaned_siblings (config_dir (workers (self fresh))) (world fresh) = [\<lparr>
      entry_path = ''/benches/shop.localhost/workspace/frappe-bench/config/frappe-bench-frappe-short-worker.fm.supervisor.conf'',
      entry_absolute = ''/benches/shop.localhost/workspace/frappe-bench/config/frappe-bench-frappe-short-worker.fm.supervisor.conf'',
      entry_is_file = True\<rparr>]
   \<and> regenerate_workers_supervisor_conf orphaned_siblings fresh =
      (Inr True, fresh\<lparr>calls := [
         ChangeHead ''Regenerating supervisor.conf.'',
         Backup \<lparr>backup_name = ''workers'', backup_dir = ''/benches/shop.localhost/backups''\<rparr>
           ''/benches/shop.localhost/workspace/frappe-bench/config/supervisor.conf'',
         ComposeExec ''frappe'' bench_setup_supervisor_command (Some ''frappe'') (Some ''/workspace/frappe-bench'') True,
         LiveLines [],
         ComposeExec ''frappe'' generate_split_config_command (Some ''frappe'') (Some ''/workspace/frappe-bench'') True,
         LiveLines []]\<rparr>)"
  by (simp add: regenerate_workers_supervisor_conf_def regenerate_commands_def
      backup_workers_supervisor_conf_def orphaned_siblings_def idle_def fresh_def shop_def
      backup_path_def run_simps)

theorem regenerate_backs_up_first_witness:
  "issued (backup_workers_supervisor_conf split_fails)
      (fresh\<lparr>calls := calls fresh @ [ChangeHead ''Regenerating supervisor.conf.'']\<rparr>) =
     [Backup \<lparr>backup_name = ''workers'', backup_dir = ''/benches/shop.localhost/backups''\<rparr>
        ''/benches/shop.localhost/workspace/frappe-bench/config/supervisor.conf'',
      Backup \<lparr>backup_name = ''workers'', backup_dir = ''/benches/shop.localhost/backups''\<rparr>
        ''config/short.fm.supervisor.conf'']
   \<and> fst (regenerate_workers_supervisor_conf split_fails fresh)
       = Inl (BenchWorkersSupervisorConfigurtionGenerateError ''shop.localhost'')"
proof -
  let ?s0 = "fresh\<lparr>calls := calls fresh @ [ChangeHead ''Regenerating supervisor.conf.'']\<rparr>"
  let ?mgr = "\<lparr>backup_name = ''workers'', backup_dir = ''/benches/shop.localhost/backups''\<rparr>"
  have b: "backup_workers_supervisor_conf split_fails ?s0 =
      (Inr ?mgr, ?s0\<lparr>calls := calls ?s0 @ [
         Backup ?mgr ''/benches/shop.localhost/workspace/frappe-bench/config/supervisor.conf'',
         Backup ?mgr ''config/short.fm.supervisor.conf'']\<rparr>)"
    by (simp add: backup_workers_supervisor_conf_def split_fails_def idle_def fresh_def shop_def
        backup_path_def suffix_def run_simps)
  have c: "fst (regenerate_commands split_fails (snd (backup_workers_supervisor_conf split_fails ?s0)))
      = Inl DockerException"
    unfolding b
    by (simp add: regenerate_commands_def split_fails_def idle_def bench_setup_supervisor_command_def
        generate_split_config_command_def run_simps)
  have sib: "sibling_configs (iterdir split_fails (config_dir (workers (self fresh))) ()) =
      [''config/short.fm.supervisor.conf'']"
    by (simp add: sibling_configs_def split_fails_def idle_def suffix_def)
  from regenerate_backs_up_first [where rt = split_fails and s = fresh] b c sib show ?thesis
    by (simp add: Let_def fresh_def shop_def backup_path_def split_fails_def idle_def)
qed

subsection \<open>Removal of containers and directories\<close>

lemma remove_dirs_deleted:
  "outcome rt (Rmtree (path (self s))) (world s) = (None, w) \<Longrightarrow>
     remove_dirs rt s =
       (Inr (), s\<lparr>calls := calls s @
          [ChangeHead ''Removing all bench files and directories.'',
           Rmtree (path (self s)),
           Print ''Removed all bench files and directories.''], world := w\<rparr>)"
  by (simp add: remove_dirs_def run_simps)

lemma remove_dirs_other_error:
  "outcome rt (Rmtree (path (self s))) (world s) = (Some e, w) \<Longrightarrow> e \<noteq> PermissionError \<Longrightarrow>
     remove_dirs rt s =
       (Inl e, s\<lparr>calls := calls s @
          [ChangeHead ''Removing all bench files and directories.'',
           Rmtree (path (self s))], world := w\<rparr>)"
  by (simp add: remove_dirs_def run_simps is_PermissionError_def)

text \<open>One recovery: the ownership is fixed through the image of frappe and the delete is retried, once.\<close>

lemma remove_dirs_recovery:
  assumes "outcome rt (Rmtree (path (self s))) (world s) = (Some PermissionError, w)"
    and "get_all_images rt w = Inr images"
    and "map_of images ''frappe'' = Some frappe_image"
  shows "\<exists>rest. issued (remove_dirs rt) s =
      [ChangeHead ''Removing all bench files and directories.'',
       Rmtree (path (self s)),
       DockerRun (image_name frappe_image @ '':'' @ image_tag frappe_image) ''/bin/sh''
         chown_command (path (self s) @ ''/workspace:/workspace'') False] @ rest
      \<and> (rest = [] \<or> rest = [Rmtree (path (self s))]
          \<or> rest = [Rmtree (path (self s)), Print ''Removed all bench files and directories.''])"
  using assms
  by (auto simp: remove_dirs_def run_simps is_PermissionError_def split: prod.splits option.splits)

lemma remove_dirs_recovery_fails:
  assumes "outcome rt (Rmtree (path (self s))) (world s) = (Some PermissionError, w)"
    and "get_all_images rt w = Inr images"
    and "map_of images ''frappe'' = Some frappe_image"
    and "outcome rt (DockerRun (image_name frappe_image @ '':'' @ image_tag frappe_image) ''/bin/sh''
         chown_command (path (self s) @ ''/workspace:/workspace'') False) w = (None, w')"
    and "outcome rt (Rmtree (path (self s))) w' = (Some e, w'')"
    and "is_Exception e"
  shows "fst (remove_dirs rt s) = Inl (BenchRemoveDirectoryError (name (self s)) (path (self s)))"
  using assms
  by (simp add: remove_dirs_def run_simps is_PermissionError_def)

text \<open>No image of frappe: nothing is tried, nothing is raised.\<close>

lemma remove_dirs_no_image:
  assumes "outcome rt (Rmtree (path (self s))) (world s) = (Some PermissionError, w)"
    and "get_all_images rt w = Inr images"
    and "map_of images ''frappe'' = None"
  shows "remove_dirs rt s =
       (Inr (), s\<lparr>calls := calls s @
          [ChangeHead ''Removing all bench files and directories.'',
           Rmtree (path (self s)),
           Print ''Removed all bench files and directories.''], world := w\<rparr>)"
  using assms
  by (simp add: remove_dirs_def run_simps is_PermissionError_def)

text \<open>
  C8. A removal of the directory is never to return normally with the directory still in
  place. With a delete that raises \<open>PermissionError\<close> and a compose file that names no
  image for \<open>frappe\<close>, \<open>remove_containers_and_dirs\<close> tries no recovery, raises nothing
  and reports \<open>Removed all bench files and directories.\<close>, while the directory exists
  as before.
\<close>

theorem remove_dirs_returns_with_directory_in_place:
  "outcome undeletable (Rmtree (path (self fresh))) (world fresh) = (Some PermissionError, ())
   \<and> remove_dirs undeletable fresh =
       (Inr (), fresh\<lparr>calls :=
          [ChangeHead ''Removing all bench files and directories.'',
           Rmtree ''/benches/shop.localhost'',
           Print ''Removed all bench files and directories.'']\<rparr>)
   \<and> path_exists undeletable ''/benches/shop.localhost'' (world (snd (remove_dirs undeletable fresh)))"
  by (simp add: remove_dirs_def undeletable_def idle_def fresh_def shop_def
      is_PermissionError_def run_simps)

subsection \<open>Removal of a bench\<close>

text \<open>
  C10. When the prompt of \<open>remove_bench\<close> is answered \<open>no\<close>, the method returns
  \<open>False\<close>; the prompt is the only call it issues, and the object and the world (the
  certificate, the database and its user, the containers and the directory) are as they
  were.
\<close>

theorem remove_bench_declined:
  assumes "prompt_ask rt (remove_bench_params (self s) default_choice) (world s) = ''no''"
  shows "remove_bench rt default_choice s =
           (Inr False, s\<lparr>calls := calls s @ [remove_bench_params (self s) default_choice]\<rparr>)
         \<and> issued (remove_bench rt default_choice) s = [remove_bench_params (self s) default_choice]
         \<and> is_display (remove_bench_params (self s) default_choice)
         \<and> world (snd (remove_bench rt default_choice s)) = world s
         \<and> self (snd (remove_bench rt default_choice s)) = self s"
  using assms
  by (simp add: remove_bench_def run_simps is_display_def remove_bench_params_def)

theorem remove_bench_declined_witness:
  "remove_bench idle True fresh =
     (Inr False, fresh\<lparr>calls := [PromptAsk
        (''Do you want to remove [bold][green]'' @ squote @ ''shop.localhost'' @ squote @ ''[/bold][/green]'')
        [''yes'', ''no''] (Some ''no'')]\<rparr>)"
  using remove_bench_declined [of idle fresh True]
  by (simp add: idle_def fresh_def shop_def remove_bench_params_def)

subsection \<open>Certificate\<close>

text \<open>For every runtime: the two rejections, and what the other two requests run.\<close>

lemma update_certificate_already_issued:
  "ssl_type c = ssl_le \<Longrightarrow> certificate_manager_has_certificate rt (world s) \<Longrightarrow>
     update_certificate rt c s = (Inl (BenchSSLCertificateAlreadyIssued (name (self s))), s)"
  by (simp add: update_certificate_def has_certificate_def run_simps)

lemma update_certificate_not_issued:
  "ssl_type c = ssl_none \<Longrightarrow> \<not> certificate_manager_has_certificate rt (world s) \<Longrightarrow>
     update_certificate rt c s = (Inl (BenchSSLCertificateNotIssued (name (self s))), s)"
  by (simp add: update_certificate_def has_certificate_def run_simps)

lemma update_certificate_dispatch:
  "update_certificate rt c s =
     (if ssl_type c = ssl_le then
        if certificate_manager_has_certificate rt (world s)
        then (Inl (BenchSSLCertificateAlreadyIssued (name (self s))), s)
        else block [call rt (SetCertificate c), set_ssl c, create_certificate rt] s
      else
        if certificate_manager_has_certificate rt (world s) then remove_certificate rt s
        else (Inl (BenchSSLCertificateNotIssued (name (self s))), s))"
  by (cases "ssl_type c") (simp_all add: update_certificate_def has_certificate_def run_simps)

text \<open>On the certificate manager modelled from the spec: revoking and issuing.\<close>

lemma remove_certificate_backend:
  "remove_certificate certificate_backend s =
     (Inr (), s\<lparr>
        self := (self s)\<lparr>bench_config := (bench_config (self s))\<lparr>ssl :=
                  \<lparr>domain = name (self s), ssl_type = ssl_none\<rparr>\<rparr>\<rparr>,
        calls := calls s @
          [RemoveCertificate,
           ChangeHead ''Saving bench config changes'',
           ExportToToml ((bench_config (self s))\<lparr>ssl := \<lparr>domain = name (self s), ssl_type = ssl_none\<rparr>\<rparr>)
             (root_path (bench_config (self s))),
           Print ''Saved bench config.''],
        world := (world s)\<lparr>active := False\<rparr>\<rparr>)"
  by (simp add: remove_certificate_def save_bench_config_def set_ssl_def certificate_backend_def
      idle_def run_simps)

lemma issue_certificate_backend:
  "ssl_type c = ssl_le \<Longrightarrow>
   block [call certificate_backend (SetCertificate c), set_ssl c, create_certificate certificate_backend] s =
     (Inr (), s\<lparr>
        self := (self s)\<lparr>bench_config := (bench_config (self s))\<lparr>ssl := c\<rparr>\<rparr>,
        calls := calls s @
          [SetCertificate c,
           GenerateCertificate,
           ChangeHead ''Saving bench config changes'',
           ExportToToml ((bench_config (self s))\<lparr>ssl := c\<rparr>) (root_path (bench_config (self s))),
           Print ''Saved bench config.''],
        world := (world s)\<lparr>certificate := c, active := True\<rparr>\<rparr>)"
  by (simp add: create_certificate_def save_bench_config_def set_ssl_def certificate_backend_def
      idle_def run_simps)

text \<open>
  C4. On the certificate manager modelled from the spec, \<open>update_certificate\<close> follows
  the table of the four cases. A request for an issued certificate while one exists
  raises \<open>BenchSSLCertificateAlreadyIssued\<close>, and a request for none while none exists
  raises \<open>BenchSSLCertificateNotIssued\<close>, both with the state as it was. A request for
  none while one exists revokes it, sets the stored descriptor to the type none for the
  bench's name and exports the configuration, after which \<open>has_certificate\<close> answers
  \<open>False\<close>. A request for an issued certificate while none exists sets the
  certificate, issues it and exports the configuration, after which \<open>has_certificate\<close>
  answers \<open>True\<close> and the same request, made again, raises
  \<open>BenchSSLCertificateAlreadyIssued\<close>.
\<close>

theorem update_certificate_table:
  "(let requested = ssl_type c;
        has = certificate_manager_has_certificate certificate_backend (world s);
        after = snd (update_certificate certificate_backend c s);
        none = \<lparr>domain = name (self s), ssl_type = ssl_none\<rparr>
    in (requested = ssl_le \<and> has \<longrightarrow>
          update_certificate certificate_backend c s
            = (Inl (BenchSSLCertificateAlreadyIssued (name (self s))), s))
     \<and> (requested = ssl_none \<and> \<not> has \<longrightarrow>
          update_certificate certificate_backend c s
            = (Inl (BenchSSLCertificateNotIssued (name (self s))), s))
     \<and> (requested = ssl_none \<and> has \<longrightarrow>
          fst (update_certificate certificate_backend c s) = Inr ()
          \<and> issued (update_certificate certificate_backend c) s =
               [RemoveCertificate,
                ChangeHead ''Saving bench config changes'',
                ExportToToml ((bench_config (self s))\<lparr>ssl := none\<rparr>) (root_path (bench_config (self s))),
                Print ''Saved bench config.'']
          \<and> ssl (bench_config (self after)) = none
          \<and> has_certificate certificate_backend after = (Inr False, after))
     \<and> (requested = ssl_le \<and> \<not> has \<longrightarrow>
          fst (update_certificate certificate_backend c s) = Inr ()
          \<and> issued (update_certificate certificate_backend c) s =
               [SetCertificate c,
                GenerateCertificate,
                ChangeHead ''Saving bench config changes'',
                ExportToToml ((bench_config (self s))\<lparr>ssl := c\<rparr>) (root_path (bench_config (self s))),
                Print ''Saved bench config.'']
          \<and> ssl (bench_config (self after)) = c
          \<and> has_certificate certificate_backend after = (Inr True, after)
          \<and> update_certificate certificate_backend c after
               = (Inl (BenchSSLCertificateAlreadyIssued (name (self s))), after)))"
proof -
  have has: "certificate_manager_has_certificate certificate_backend w = active w" for w
    by (simp add: certificate_backend_def idle_def)
  show ?thesis
    unfolding Let_def
  proof (intro conjI impI)
    assume "ssl_type c = ssl_le \<and> certificate_manager_has_certificate certificate_backend (world s)"
    then show "update_certificate certificate_backend c s
            = (Inl (BenchSSLCertificateAlreadyIssued (name (self s))), s)"
      by (simp add: update_certificate_already_issued)
  next
    assume "ssl_type c = ssl_none \<and> \<not> certificate_manager_has_certificate certificate_backend (world s)"
    then show "update_certificate certificate_backend c s
            = (Inl (BenchSSLCertificateNotIssued (name (self s))), s)"
      by (simp add: update_certificate_not_issued)
  next
    assume a: "ssl_type c = ssl_none \<and> certificate_manager_has_certificate certificate_backend (world s)"
    then have run: "update_certificate certificate_backend c s = remove_certificate certificate_backend s"
      by (simp add: update_certificate_dispatch)
    show "fst (update_certificate certificate_backend c s) = Inr ()"
      and "issued (update_certificate certificate_backend c) s =
               [RemoveCertificate,
                ChangeHead ''Saving bench config changes'',
                ExportToToml ((bench_config (self s))\<lparr>ssl := \<lparr>domain = name (self s), ssl_type = ssl_none\<rparr>\<rparr>)
                  (root_path (bench_config (self s))),
                Print ''Saved bench config.'']"
      and "ssl (bench_config (self (snd (update_certificate certificate_backend c s))))
            = \<lparr>domain = name (self s), ssl_type = ssl_none\<rparr>"
      and "has_certificate certificate_backend (snd (update_certificate certificate_backend c s))
            = (Inr False, snd (update_certificate certificate_backend c s))"
      unfolding issued_def run remove_certificate_backend
      by (simp_all add: has_certificate_def with_world_def return_def has)
  next
    assume a: "ssl_type c = ssl_le \<and> \<not> certificate_manager_has_certificate certificate_backend (world s)"
    then have run: "update_certificate certificate_backend c s =
        block [call certificate_backend (SetCertificate c), set_ssl c,
               create_certificate certificate_backend] s"
      by (simp add: update_certificate_dispatch)
    from a have le: "ssl_type c = ssl_le" by simp
    show "fst (update_certificate certificate_backend c s) = Inr ()"
      and "issued (update_certificate certificate_backend c) s =
               [SetCertificate c,
                GenerateCertificate,
                ChangeHead ''Saving bench config changes'',
                ExportToToml ((bench_config (self s))\<lparr>ssl := c\<rparr>) (root_path (bench_config (self s))),
                Print ''Saved bench config.'']"
      and "ssl (bench_config (self (snd (update_certificate certificate_backend c s)))) = c"
      and "has_certificate certificate_backend (snd (update_certificate certificate_backend c s))
            = (Inr True, snd (update_certificate certificate_backend c s))"
      and "update_certificate certificate_backend c (snd (update_certificate certificate_backend c s))
            = (Inl (BenchSSLCertificateAlreadyIssued (name (self s))),
               snd (update_certificate certificate_backend c s))"
      unfolding issued_def run issue_certificate_backend [OF le]
      by (simp_all add: has_certificate_def with_world_def return_def has
          update_certificate_already_issued le)
  qed
qed

theorem update_certificate_table_witness:
  "fst (update_certificate certificate_backend shop_le unissued) = Inr ()
   \<and> fst (update_certificate certificate_backend shop_le
            (snd (update_certificate certificate_backend shop_le unissued)))
       = Inl (BenchSSLCertificateAlreadyIssued ''shop.localhost'')
   \<and> fst (update_certificate certificate_backend shop_none unissued)
       = Inl (BenchSSLCertificateNotIssued ''shop.localhost'')
   \<and> fst (update_certificate certificate_backend shop_none
            (snd (update_certificate certificate_backend shop_le unissued))) = Inr ()"
proof -
  let ?issued = "snd (update_certificate certificate_backend shop_le unissued)"
  have u: "\<not> certificate_manager_has_certificate certificate_backend (world unissued)"
    "name (self unissued) = ''shop.localhost''"
    by (simp_all add: certificate_backend_def idle_def unissued_def shop_def)
  have t: "ssl_type shop_le = ssl_le" "ssl_type shop_none = ssl_none"
    by (simp_all add: shop_le_def shop_none_def)
  from update_certificate_table [of shop_le unissued] u t
  have first: "fst (update_certificate certificate_backend shop_le unissued) = Inr ()"
    and has: "has_certificate certificate_backend ?issued = (Inr True, ?issued)"
    and again: "update_certificate certificate_backend shop_le ?issued
       = (Inl (BenchSSLCertificateAlreadyIssued ''shop.localhost''), ?issued)"
    by (simp_all add: Let_def)
  from has have active: "certificate_manager_has_certificate certificate_backend (world ?issued)"
    by (simp add: has_certificate_def with_world_def return_def)
  from update_certificate_table [of shop_none unissued] u t
  have none: "fst (update_certificate certificate_backend shop_none unissued)
       = Inl (BenchSSLCertificateNotIssued ''shop.localhost'')"
    by (simp add: Let_def)
  from update_certificate_table [of shop_none ?issued] active t
  have revoke: "fst (update_certificate certificate_backend shop_none ?issued) = Inr ()"
    by (simp add: Let_def)
  from first again none revoke show ?thesis by simp
qed

subsection \<open>Readiness probe\<close>

lemma is_bench_created_loop_all_fail:
  assumes "\<And>w. \<exists>e. fst (exec_result rt (ComposeExec ''frappe'' command None None False) w) = Inl e
                    \<and> is_Exception e"
    and "0 \<le> interval"
  shows "fst (is_bench_created_loop rt command interval n s) = Inr False
     \<and> calls (snd (is_bench_created_loop rt command interval n s)) =
         calls s @ concat (replicate n [ComposeExec ''frappe'' command None None False, Sleep interval])
     \<and> self (snd (is_bench_created_loop rt command interval n s)) = self s"
proof (induction n arbitrary: s)
  case 0
  show ?case by (simp add: return_def)
next
  case (Suc n)
  let ?ev = "ComposeExec ''frappe'' command None None False"
  from assms(1) [of "world s"] obtain e w' where
    e: "exec_result rt ?ev (world s) = (Inl e, w')" "is_Exception e"
    by (cases "exec_result rt ?ev (world s)") auto
  let ?s1 = "s\<lparr>world := w', calls := calls s @ [?ev, Sleep interval]\<rparr>"
  from e assms(2) have step: "is_bench_created_loop rt command interval (Suc n) s
      = is_bench_created_loop rt command interval n ?s1"
    by (simp add: sleep_def run_simps)
  from Suc.IH [of ?s1] show ?case unfolding step by simp
qed

lemma is_bench_created_negative_interval:
  assumes "exec_result rt (ComposeExec ''frappe'' (check_command (self s) retry) None None False) (world s)
             = (Inl e, w')"
    and "is_Exception e" and "1 \<le> retry" and "interval < 0"
  shows "is_bench_created rt retry interval s =
     (Inl ValueError,
      s\<lparr>calls := calls s @ [ComposeExec ''frappe'' (check_command (self s) retry) None None False],
        world := w'\<rparr>)"
proof -
  from assms(3) obtain n where n: "nat retry = Suc n" by (cases "nat retry") auto
  from assms(1,2,4) show ?thesis
    by (simp add: is_bench_created_def n sleep_def run_simps)
qed

lemma create_site_status_check_inactive:
  assumes "fst (is_bench_created rt 60 1
      (c\<lparr>calls := calls c @ [ChangeHead ''Commencing site status check on bench site.'']\<rparr>)) = Inr False"
  shows "create_site_status_check rt c =
     (Inl (Exception ''Bench site is inactive or unresponsive.''),
      snd (is_bench_created rt 60 1
        (c\<lparr>calls := calls c @ [ChangeHead ''Commencing site status check on bench site.'']\<rparr>)))"
  using assms
  by (cases "is_bench_created rt 60 1
      (c\<lparr>calls := calls c @ [ChangeHead ''Commencing site status check on bench site.'']\<rparr>)")
     (simp add: create_site_status_check_def bind_def say_def raise_def)

lemma create_aborts_when_inactive:
  assumes "fst (create_start rt is_template_bench c) = Inr ()"
    and "fst (is_bench_created rt 60 1
      ((snd (create_start rt is_template_bench c))\<lparr>calls := calls (snd (create_start rt is_template_bench c))
          @ [ChangeHead ''Commencing site status check on bench site.'']\<rparr>)) = Inr False"
  shows "create_body rt is_template_bench c =
     (Inl (Exception ''Bench site is inactive or unresponsive.''),
      snd (is_bench_created rt 60 1
        ((snd (create_start rt is_template_bench c))\<lparr>calls := calls (snd (create_start rt is_template_bench c))
          @ [ChangeHead ''Commencing site status check on bench site.'']\<rparr>)))"
    and "create rt is_template_bench c =
     create_handler rt (Exception ''Bench site is inactive or unresponsive.'')
       (snd (is_bench_created rt 60 1
        ((snd (create_start rt is_template_bench c))\<lparr>calls := calls (snd (create_start rt is_template_bench c))
          @ [ChangeHead ''Commencing site status check on bench site.'']\<rparr>)))"
proof -
  obtain c1 where c1: "create_start rt is_template_bench c = (Inr (), c1)"
    using assms(1) by (cases "create_start rt is_template_bench c") auto
  from assms(2) c1 have "create_site_status_check rt c1 =
     (Inl (Exception ''Bench site is inactive or unresponsive.''),
      snd (is_bench_created rt 60 1
        (c1\<lparr>calls := calls c1 @ [ChangeHead ''Commencing site status check on bench site.'']\<rparr>)))"
    by (intro create_site_status_check_inactive) simp
  with c1 show body: "create_body rt is_template_bench c =
     (Inl (Exception ''Bench site is inactive or unresponsive.''),
      snd (is_bench_created rt 60 1
        ((snd (create_start rt is_template_bench c))\<lparr>calls := calls (snd (create_start rt is_template_bench c))
          @ [ChangeHead ''Commencing site status check on bench site.'']\<rparr>)))"
    by (simp add: create_body_def bind_def)
  then show "create rt is_template_bench c =
     create_handler rt (Exception ''Bench site is inactive or unresponsive.'')
       (snd (is_bench_created rt 60 1
        ((snd (create_start rt is_template_bench c))\<lparr>calls := calls (snd (create_start rt is_template_bench c))
          @ [ChangeHead ''Commencing site status check on bench site.'']\<rparr>)))"
    by (simp add: create_def try_except_def)
qed

text \<open>
  C5. If every attempt of the probe ends in an exception, \<open>is_bench_created\<close> with a
  budget of \<open>retry \<ge> 1\<close> and a delay \<open>interval \<ge> 0\<close> answers \<open>False\<close> after exactly
  \<open>retry\<close> attempts, each followed by one \<open>time.sleep(interval)\<close>, and issues nothing else
  (a negative \<open>interval\<close> is refused by \<open>time.sleep\<close> after the first attempt). In \<open>create\<close>, once
  the steps before the check are through, an answer \<open>False\<close> of the probe raises the
  exception \<open>Bench site is inactive or unresponsive.\<close>: the body of the \<open>try\<close> ends there,
  in the state the probe left, and the handler of \<open>create\<close> takes over.
\<close>

theorem is_bench_created_exhausts:
  assumes "\<And>w. \<exists>e. fst (exec_result rt
              (ComposeExec ''frappe'' (check_command (self s) retry) None None False) w) = Inl e
            \<and> is_Exception e"
    and "1 \<le> retry"
    and "0 \<le> interval"
  shows "fst (is_bench_created rt retry interval s) = Inr False
     \<and> issued (is_bench_created rt retry interval) s =
         concat (replicate (nat retry)
           [ComposeExec ''frappe'' (check_command (self s) retry) None None False, Sleep interval])
     \<and> length (filter is_exec (issued (is_bench_created rt retry interval) s)) = nat retry
     \<and> filter (\<lambda>ev. \<not> is_exec ev) (issued (is_bench_created rt retry interval) s)
         = replicate (nat retry) (Sleep interval)
     \<and> (\<forall>is_template_bench c.
          (let probe = is_bench_created rt 60 1
                 ((snd (create_start rt is_template_bench c))\<lparr>calls :=
                    calls (snd (create_start rt is_template_bench c))
                    @ [ChangeHead ''Commencing site status check on bench site.'']\<rparr>)
           in fst (create_start rt is_template_bench c) = Inr () \<and> fst probe = Inr False \<longrightarrow>
              create_body rt is_template_bench c =
                (Inl (Exception ''Bench site is inactive or unresponsive.''), snd probe)
              \<and> create rt is_template_bench c =
                create_handler rt (Exception ''Bench site is inactive or unresponsive.'') (snd probe)))"
proof -
  let ?cmd = "check_command (self s) retry"
  let ?ev = "ComposeExec ''frappe'' ?cmd None None False"
  have run: "is_bench_created rt retry interval s
      = is_bench_created_loop rt ?cmd interval (nat retry) s"
    by (simp add: is_bench_created_def with_self_def)
  from is_bench_created_loop_all_fail [of rt ?cmd interval "nat retry" s, OF assms(1) assms(3)]
  have r: "fst (is_bench_created rt retry interval s) = Inr False"
    and c: "issued (is_bench_created rt retry interval) s = concat (replicate (nat retry) [?ev, Sleep interval])"
    unfolding run issued_def by simp_all
  have count: "length (filter is_exec (concat (replicate n [?ev, Sleep interval]))) = n" for n
    by (induction n) (simp_all add: is_exec_def)
  have sleeps: "filter (\<lambda>ev. \<not> is_exec ev) (concat (replicate n [?ev, Sleep interval]))
      = replicate n (Sleep interval)" for n
    by (induction n) (simp_all add: is_exec_def)
  from r c count sleeps create_aborts_when_inactive [of rt] show ?thesis
    by (simp add: Let_def)
qed

theorem is_bench_created_exhausts_witness:
  "is_bench_created site_down 3 1 fresh =
     (Inr False, fresh\<lparr>calls := [
        ComposeExec ''frappe'' (check_command shop 3) None None False, Sleep 1,
        ComposeExec ''frappe'' (check_command shop 3) None None False, Sleep 1,
        ComposeExec ''frappe'' (check_command shop 3) None None False, Sleep 1]\<rparr>)
   \<and> fst (create_body site_down False fresh) = Inl (Exception ''Bench site is inactive or unresponsive.'')"
proof -
  have fails: "\<exists>e. fst (exec_result site_down (ComposeExec ''frappe'' command None None False) w) = Inl e
      \<and> is_Exception e" for command w
    by (simp add: site_down_def idle_def)
  have started: "fst (create_start site_down False fresh) = Inr ()"
    by (simp add: create_start_def frappe_logs_till_start_def sync_workers_compose_def
        regenerate_workers_supervisor_conf_def regenerate_commands_def
        backup_workers_supervisor_conf_def site_down_def idle_def fresh_def shop_def
        is_DockerException_def run_simps)
  let ?c1 = "(snd (create_start site_down False fresh))\<lparr>calls :=
                    calls (snd (create_start site_down False fresh))
                    @ [ChangeHead ''Commencing site status check on bench site.'']\<rparr>"
  have probe: "fst (is_bench_created site_down 60 1 ?c1) = Inr False"
    using is_bench_created_exhausts [of site_down ?c1 60 1, OF fails] by simp
  have three: "fst (is_bench_created site_down 3 1 fresh) = Inr False
     \<and> issued (is_bench_created site_down 3 1) fresh =
         concat (replicate (nat 3)
           [ComposeExec ''frappe'' (check_command (self fresh) 3) None None False, Sleep 1])"
    using is_bench_created_exhausts [of site_down fresh 3 1, OF fails] by simp
  have whole: "is_bench_created site_down 3 1 fresh =
      (Inr False, fresh\<lparr>calls := calls fresh @ issued (is_bench_created site_down 3 1) fresh\<rparr>)"
    by (simp add: is_bench_created_def site_down_def idle_def fresh_def sleep_def run_simps numeral_3_eq_3)
  from is_bench_created_exhausts [of site_down ?c1 60 1, OF fails] started probe
  have "fst (create_body site_down False fresh) = Inl (Exception ''Bench site is inactive or unresponsive.'')"
    by (simp add: Let_def)
  with three whole show ?thesis by (simp add: fresh_def numeral_3_eq_3)
qed

subsection \<open>Removal of the containers\<close>

lemma remove_project_containers_absent:
  "\<not> compose_file_exists rt p (world s) \<Longrightarrow>
     remove_project_containers rt p s =
       (Inr (), s\<lparr>calls := calls s @
          [Warning (compose_file_of p @ '' compose file not found. Skipping containers removal.'')]\<rparr>)"
  by (simp add: remove_project_containers_def run_simps)

lemma remove_project_containers_present:
  "compose_file_exists rt p (world s) \<Longrightarrow>
     remove_project_containers rt p s =
       (case outcome rt (DownService p True True) (world s) of
          (None, w) \<Rightarrow> (Inr (), s\<lparr>calls := calls s @
             [ChangeHead (''Removing '' @ containers_of p @ '' containers.''),
              DownService p True True,
              Print (''Removed '' @ containers_of p @ '' containers.'')], world := w\<rparr>)
        | (Some e, w) \<Rightarrow> (Inl e, s\<lparr>calls := calls s @
             [ChangeHead (''Removing '' @ containers_of p @ '' containers.''),
              DownService p True True], world := w\<rparr>))"
  by (simp add: remove_project_containers_def run_simps split: prod.splits option.splits)

text \<open>One step of the removal, when taking the project down returns.\<close>

lemma remove_project_containers_returns:
  assumes "fst (outcome rt (DownService p True True) (world s)) = None"
  shows "remove_project_containers rt p s =
     (Inr (), s\<lparr>calls := calls s @ teardown_calls p (compose_file_exists rt p (world s)),
                world := after_teardown rt p (world s)\<rparr>)"
proof (cases "compose_file_exists rt p (world s)")
  case True
  with assms show ?thesis
    by (cases "outcome rt (DownService p True True) (world s)")
       (simp add: remove_project_containers_present teardown_calls_def after_teardown_def)
next
  case False
  then show ?thesis
    by (simp add: remove_project_containers_absent teardown_calls_def after_teardown_def)
qed

text \<open>A \<open>down\<close> that raises ends the removal: the source has no \<open>try\<close> around it.\<close>

lemma remove_containers_primary_down_raises:
  assumes "compose_file_exists rt Primary (world s)"
    and "outcome rt (DownService Primary True True) (world s) = (Some e, w)"
  shows "remove_containers_and_dirs rt s =
     (Inl e, s\<lparr>calls := calls s @
        [ChangeHead ''Removing bench containers.'', DownService Primary True True], world := w\<rparr>)"
  using assms
  by (simp add: remove_containers_and_dirs_def remove_containers_def
      remove_project_containers_present bind_def)

lemma emits_only_remove_dirs:
  "emits_only (\<lambda>ev. \<not> is_down ev \<and> \<not> is_warning ev) (remove_dirs rt)"
  unfolding remove_dirs_def
  by (auto intro!: emits simp: is_down_def is_warning_def split: sum.splits option.splits)

lemma teardown_calls_down:
  "(DownService p orphans volumes \<in> set (teardown_calls q present)) = (p = q \<and> orphans \<and> volumes \<and> present)"
  by (auto simp: teardown_calls_def)

lemma compose_file_of_inject: "(compose_file_of p = compose_file_of q) = (p = q)"
  by (cases p; cases q) simp_all

lemma teardown_calls_warning:
  "(Warning (compose_file_of p @ '' compose file not found. Skipping containers removal.'')
      \<in> set (teardown_calls q present)) = (p = q \<and> \<not> present)"
  by (auto simp: teardown_calls_def compose_file_of_inject)

lemma teardown_calls_count:
  "length (filter is_down (teardown_calls p present)) = (if present then 1 else 0)"
  "length (filter is_warning (teardown_calls p present)) = (if present then 0 else 1)"
  by (simp_all add: teardown_calls_def is_down_def is_warning_def)

lemma filter_none: "list_all (\<lambda>ev. \<not> P ev) es \<Longrightarrow> filter P es = []"
  by (induction es) simp_all

text \<open>
  C7. As long as every \<open>down\<close> returns, \<open>remove_containers_and_dirs\<close> goes through
  the three compose projects in the order primary, workers, admin tools, reads whether the
  descriptor of each exists when its step is reached, takes the project down, orphans and
  volumes included, exactly when it does, and warns that the removal is skipped exactly
  when it does not; the removal of the containers raises nothing, and the removal of the
  directory follows. So there are as many \<open>down\<close>s as descriptors and as many warnings
  as descriptors missing; with the descriptor of the primary group alone, one \<open>down\<close>
  and two warnings.
\<close>

theorem remove_containers_down_iff_descriptor:
  assumes "\<And>p w. fst (outcome rt (DownService p True True) w) = None"
  shows "(let w0 = world s;
              w1 = after_teardown rt Primary w0;
              w2 = after_teardown rt Workers w1;
              w3 = after_teardown rt AdminTools w2;
              present = (\<lambda>p. compose_file_exists rt p
                           (case p of Primary \<Rightarrow> w0 | Workers \<Rightarrow> w1 | AdminTools \<Rightarrow> w2));
              torn = s\<lparr>calls := calls s @ teardown_calls Primary (present Primary)
                         @ teardown_calls Workers (present Workers)
                         @ teardown_calls AdminTools (present AdminTools),
                       world := w3\<rparr>;
              run = issued (remove_containers_and_dirs rt) s
          in remove_containers rt s = (Inr (), torn)
           \<and> remove_containers_and_dirs rt s = remove_dirs rt torn
           \<and> (\<forall>p. (DownService p True True \<in> set run) = present p
                  \<and> (\<exists>orphans volumes. DownService p orphans volumes \<in> set run) = present p
                  \<and> (Warning (compose_file_of p @ '' compose file not found. Skipping containers removal.'')
                        \<in> set run) = (\<not> present p))
           \<and> length (filter is_down run) = length (filter present [Primary, Workers, AdminTools])
           \<and> length (filter is_warning run)
               = length (filter (\<lambda>p. \<not> present p) [Primary, Workers, AdminTools])
           \<and> (present Primary \<and> \<not> present Workers \<and> \<not> present AdminTools \<longrightarrow>
                remove_containers rt s =
                  (Inr (), s\<lparr>calls := calls s @
                     [ChangeHead ''Removing bench containers.'',
                      DownService Primary True True,
                      Print ''Removed bench containers.'',
                      Warning ''Bench workers compose file not found. Skipping containers removal.'',
                      Warning ''Bench admin tools compose file not found. Skipping containers removal.''],
                     world := snd (outcome rt (DownService Primary True True) (world s))\<rparr>)
                \<and> length (filter is_down run) = 1 \<and> length (filter is_warning run) = 2))"
proof -
  let ?w0 = "world s"
  let ?w1 = "after_teardown rt Primary ?w0"
  let ?w2 = "after_teardown rt Workers ?w1"
  let ?w3 = "after_teardown rt AdminTools ?w2"
  let ?e0 = "compose_file_exists rt Primary ?w0"
  let ?e1 = "compose_file_exists rt Workers ?w1"
  let ?e2 = "compose_file_exists rt AdminTools ?w2"
  let ?present = "\<lambda>p. compose_file_exists rt p
                           (case p of Primary \<Rightarrow> ?w0 | Workers \<Rightarrow> ?w1 | AdminTools \<Rightarrow> ?w2)"
  let ?T = "teardown_calls Primary ?e0 @ teardown_calls Workers ?e1 @ teardown_calls AdminTools ?e2"
  let ?torn = "s\<lparr>calls := calls s @ ?T, world := ?w3\<rparr>"
  let ?run = "issued (remove_containers_and_dirs rt) s"
  let ?dirs = "issued (remove_dirs rt) ?torn"
  have step: "remove_project_containers rt p t =
     (Inr (), t\<lparr>calls := calls t @ teardown_calls p (compose_file_exists rt p (world t)),
                world := after_teardown rt p (world t)\<rparr>)" for p t
    by (rule remove_project_containers_returns) (rule assms)
  have containers: "remove_containers rt s = (Inr (), ?torn)"
    by (simp add: remove_containers_def step bind_def return_def)
  then have both: "remove_containers_and_dirs rt s = remove_dirs rt ?torn"
    by (simp add: remove_containers_and_dirs_def bind_def return_def split: prod.splits sum.splits)
  have dirs: "calls (snd (remove_dirs rt ?torn)) = calls ?torn @ ?dirs"
    and quiet: "list_all (\<lambda>ev. \<not> is_down ev \<and> \<not> is_warning ev) ?dirs"
    using emits_only_issued [OF emits_only_remove_dirs, of rt ?torn] by simp_all
  have run: "?run = ?T @ ?dirs"
    unfolding issued_def [of "remove_containers_and_dirs rt"] both dirs by simp
  have no_down: "DownService p orphans volumes \<notin> set ?dirs" for p orphans volumes
    using quiet by (auto simp: list_all_iff is_down_def)
  have no_warning: "Warning t \<notin> set ?dirs" for t
    using quiet by (auto simp: list_all_iff is_warning_def)
  have f_down: "filter is_down ?dirs = []" and f_warning: "filter is_warning ?dirs = []"
    using quiet by (simp_all add: filter_none list_all_iff)
  have down: "(DownService p orphans volumes \<in> set ?run) = (orphans \<and> volumes \<and> ?present p)"
    for p orphans volumes
    unfolding run using no_down [of p orphans volumes]
    by (cases p) (auto simp: teardown_calls_down)
  have warning: "(Warning (compose_file_of p @ '' compose file not found. Skipping containers removal.'')
                        \<in> set ?run) = (\<not> ?present p)" for p
    unfolding run
    using no_warning [of "compose_file_of p @ '' compose file not found. Skipping containers removal.''"]
    by (cases p) (auto simp: teardown_calls_warning simp del: compose_file_of.simps)
  have downs: "length (filter is_down ?run) =
      (if ?e0 then 1 else 0) + (if ?e1 then 1 else 0) + (if ?e2 then 1 else 0)"
    unfolding run by (simp add: teardown_calls_count f_down)
  have warnings: "length (filter is_warning ?run) =
      (if ?e0 then 0 else 1) + (if ?e1 then 0 else 1) + (if ?e2 then 0 else 1)"
    unfolding run by (simp add: teardown_calls_count f_warning)
  have c1: "remove_containers rt s = (Inr (), ?torn) \<and> remove_containers_and_dirs rt s = remove_dirs rt ?torn"
    using containers both by simp
  have c2: "\<forall>p. (DownService p True True \<in> set ?run) = ?present p
                  \<and> (\<exists>orphans volumes. DownService p orphans volumes \<in> set ?run) = ?present p
                  \<and> (Warning (compose_file_of p @ '' compose file not found. Skipping containers removal.'')
                        \<in> set ?run) = (\<not> ?present p)"
    using down warning by blast
  have c3: "length (filter is_down ?run) = length (filter ?present [Primary, Workers, AdminTools])"
    unfolding downs by simp
  have c4: "length (filter is_warning ?run)
               = length (filter (\<lambda>p. \<not> ?present p) [Primary, Workers, AdminTools])"
    unfolding warnings by simp
  have c5: "?present Primary \<and> \<not> ?present Workers \<and> \<not> ?present AdminTools \<longrightarrow>
                remove_containers rt s =
                  (Inr (), s\<lparr>calls := calls s @
                     [ChangeHead ''Removing bench containers.'',
                      DownService Primary True True,
                      Print ''Removed bench containers.'',
                      Warning ''Bench workers compose file not found. Skipping containers removal.'',
                      Warning ''Bench admin tools compose file not found. Skipping containers removal.''],
                     world := snd (outcome rt (DownService Primary True True) (world s))\<rparr>)
                \<and> length (filter is_down ?run) = 1 \<and> length (filter is_warning ?run) = 2"
    unfolding downs warnings containers
    by (simp add: teardown_calls_def after_teardown_def)
  from containers both c2 c3 c4 c5 show ?thesis
    unfolding Let_def compose_project.case by blast
qed

text \<open>
  With every descriptor in place and a \<open>down\<close> of the primary group that raises, the
  method ends there: the worker group and the admin tools are not taken down.
\<close>

theorem remove_containers_ends_at_failed_down:
  "compose_file_exists down_fails Workers (world fresh)
   \<and> compose_file_exists down_fails AdminTools (world fresh)
   \<and> remove_containers_and_dirs down_fails fresh =
       (Inl DockerException,
        fresh\<lparr>calls := [ChangeHead ''Removing bench containers.'', DownService Primary True True]\<rparr>)
   \<and> DownService Workers True True \<notin> set (issued (remove_containers_and_dirs down_fails) fresh)
   \<and> DownService AdminTools True True \<notin> set (issued (remove_containers_and_dirs down_fails) fresh)"
  by (simp add: remove_containers_and_dirs_def remove_containers_def remove_project_containers_def
      down_fails_def idle_def fresh_def run_simps)

theorem remove_containers_down_iff_descriptor_witness:
  "remove_containers only_primary fresh =
     (Inr (), fresh\<lparr>calls :=
        [ChangeHead ''Removing bench containers.'',
         DownService Primary True True,
         Print ''Removed bench containers.'',
         Warning ''Bench workers compose file not found. Skipping containers removal.'',
         Warning ''Bench admin tools compose file not found. Skipping containers removal.'']\<rparr>)
   \<and> length (filter is_down (issued (remove_containers_and_dirs only_primary) fresh)) = 1
   \<and> length (filter is_warning (issued (remove_containers_and_dirs only_primary) fresh)) = 2
   \<and> remove_containers_and_dirs only_primary fresh =
     (Inr (), fresh\<lparr>calls :=
        [ChangeHead ''Removing bench containers.'',
         DownService Primary True True,
         Print ''Removed bench containers.'',
         Warning ''Bench workers compose file not found. Skipping containers removal.'',
         Warning ''Bench admin tools compose file not found. Skipping containers removal.'',
         ChangeHead ''Removing all bench files and directories.'',
         Rmtree ''/benches/shop.localhost'',
         Print ''Removed all bench files and directories.'']\<rparr>)"
proof -
  have returns: "fst (outcome only_primary (DownService p True True) w) = None" for p w
    by (simp add: only_primary_def idle_def)
  have here: "compose_file_exists only_primary p w = (p = Primary)" for p w
    by (simp add: only_primary_def idle_def)
  have same: "after_teardown only_primary p w = w" for p w
    by (simp add: after_teardown_def only_primary_def idle_def)
  from remove_containers_down_iff_descriptor [of only_primary fresh, OF returns]
  have c: "remove_containers only_primary fresh =
     (Inr (), fresh\<lparr>calls := calls fresh @
        [ChangeHead ''Removing bench containers.'',
         DownService Primary True True,
         Print ''Removed bench containers.'',
         Warning ''Bench workers compose file not found. Skipping containers removal.'',
         Warning ''Bench admin tools compose file not found. Skipping containers removal.''],
        world := snd (outcome only_primary (DownService Primary True True) (world fresh))\<rparr>)
     \<and> length (filter is_down (issued (remove_containers_and_dirs only_primary) fresh)) = 1
     \<and> length (filter is_warning (issued (remove_containers_and_dirs only_primary) fresh)) = 2"
    unfolding Let_def by (simp add: here same teardown_calls_def)
  then have c': "remove_containers only_primary fresh =
     (Inr (), fresh\<lparr>calls :=
        [ChangeHead ''Removing bench containers.'',
         DownService Primary True True,
         Print ''Removed bench containers.'',
         Warning ''Bench workers compose file not found. Skipping containers removal.'',
         Warning ''Bench admin tools compose file not found. Skipping containers removal.'']\<rparr>)"
    by (simp add: fresh_def only_primary_def idle_def)
  then have "remove_containers_and_dirs only_primary fresh =
     (Inr (), fresh\<lparr>calls :=
        [ChangeHead ''Removing bench containers.'',
         DownService Primary True True,
         Print ''Removed bench containers.'',
         Warning ''Bench workers compose file not found. Skipping containers removal.'',
         Warning ''Bench admin tools compose file not found. Skipping containers removal.'',
         ChangeHead ''Removing all bench files and directories.'',
         Rmtree ''/benches/shop.localhost'',
         Print ''Removed all bench files and directories.'']\<rparr>)"
    by (simp add: remove_containers_and_dirs_def remove_dirs_def only_primary_def idle_def
        fresh_def shop_def is_PermissionError_def run_simps)
  with c c' show ?thesis by simp
qed

subsection \<open>Synchronisation of the workers' compose\<close>

lemma sync_workers_compose_unfold:
  "sync_workers_compose rt force_recreate s =
     (case regenerate_workers_supervisor_conf rt s of
        (Inl e, s1) \<Rightarrow> (Inl e, s1)
      | (Inr done, s1) \<Rightarrow>
          if is_expected_worker_same_as_template rt (world s1)
          then (Inr (), s1\<lparr>calls := calls s1 @ [Print ''Workers configuration remains unchanged.'']\<rparr>)
          else block [call rt WorkersGenerateCompose,
                      call rt (StartService Workers (Some force_recreate))] s1)"
  by (simp add: sync_workers_compose_def bind_def with_world_def say_def Let_def
      split: prod.splits sum.splits)

lemma sync_workers_compose_quiet:
  assumes "isl (fst (regenerate_workers_supervisor_conf rt s))
      \<or> is_expected_worker_same_as_template rt (world (snd (regenerate_workers_supervisor_conf rt s)))"
  shows "list_all (\<lambda>ev. \<not> is_start ev \<and> ev \<noteq> WorkersGenerateCompose)
           (issued (sync_workers_compose rt force_recreate) s)"
proof -
  obtain r1 s1 where r: "regenerate_workers_supervisor_conf rt s = (r1, s1)"
    by (cases "regenerate_workers_supervisor_conf rt s")
  have e: "calls s1 = calls s @ issued (regenerate_workers_supervisor_conf rt) s"
    and q: "list_all (\<lambda>ev. \<not> is_start ev \<and> ev \<noteq> WorkersGenerateCompose)
             (issued (regenerate_workers_supervisor_conf rt) s)"
    using emits_only_issued [OF emits_only_regenerate
        [of "\<lambda>ev. \<not> is_start ev \<and> ev \<noteq> WorkersGenerateCompose" rt], of s] r
    by (simp_all add: is_start_def)
  show ?thesis
  proof (cases r1)
    case (Inl e')
    with r have "sync_workers_compose rt force_recreate s = (Inl e', s1)"
      by (simp add: sync_workers_compose_unfold)
    with e q show ?thesis
      unfolding issued_def [of "sync_workers_compose rt force_recreate"] by simp
  next
    case (Inr d)
    with assms r have "is_expected_worker_same_as_template rt (world s1)" by simp
    with r Inr have "sync_workers_compose rt force_recreate s =
        (Inr (), s1\<lparr>calls := calls s1 @ [Print ''Workers configuration remains unchanged.'']\<rparr>)"
      by (simp add: sync_workers_compose_unfold)
    with e q show ?thesis
      unfolding issued_def [of "sync_workers_compose rt force_recreate"] by (simp add: is_start_def)
  qed
qed

lemma sync_workers_compose_changed:
  assumes "\<not> isl (fst (regenerate_workers_supervisor_conf rt s))"
    and "\<not> is_expected_worker_same_as_template rt (world (snd (regenerate_workers_supervisor_conf rt s)))"
  shows "issued (sync_workers_compose rt force_recreate) s =
     issued (regenerate_workers_supervisor_conf rt) s @ WorkersGenerateCompose #
       (if fst (outcome rt WorkersGenerateCompose (world (snd (regenerate_workers_supervisor_conf rt s)))) = None
        then [StartService Workers (Some force_recreate)] else [])"
proof -
  obtain r1 s1 where rs: "regenerate_workers_supervisor_conf rt s = (r1, s1)"
    by (cases "regenerate_workers_supervisor_conf rt s")
  with assms(1) obtain d where "r1 = Inr d" by (cases r1) auto
  with rs have r: "regenerate_workers_supervisor_conf rt s = (Inr d, s1)" by simp
  have e: "calls s1 = calls s @ issued (regenerate_workers_supervisor_conf rt) s"
    using emits_only_issued(1) [OF emits_only_regenerate [of "\<lambda>ev. True" rt], of s] r by simp
  from assms(2) r have run: "sync_workers_compose rt force_recreate s =
      block [call rt WorkersGenerateCompose, call rt (StartService Workers (Some force_recreate))] s1"
    by (simp add: sync_workers_compose_unfold)
  show ?thesis
    unfolding issued_def [of "sync_workers_compose rt force_recreate"] run
    using e r
    by (auto simp: bind_def call_def return_def split: prod.splits option.splits)
qed

text \<open>
  C3. When the regeneration has returned and the comparison reports the workers'
  configuration unchanged, \<open>sync_workers_compose\<close> prints
  \<open>Workers configuration remains unchanged.\<close> and returns, in the state the
  regeneration left; whenever the comparison reports no change, the method neither
  generates the workers' compose nor starts the worker group. When the regeneration has
  returned and the comparison reports a change, the method generates the workers' compose
  and, once that has returned, starts the worker group, whatever an earlier call did: the
  method keeps nothing from one call to the next, and a call made after another one skips
  the restart exactly when the comparison then reports no change.
\<close>

theorem sync_workers_compose_unchanged:
  "(let regenerated = regenerate_workers_supervisor_conf rt s;
        unchanged = is_expected_worker_same_as_template rt (world (snd regenerated))
    in (\<not> isl (fst regenerated) \<and> unchanged \<longrightarrow>
          sync_workers_compose rt force_recreate s =
            (Inr (), (snd regenerated)\<lparr>calls := calls (snd regenerated)
               @ [Print ''Workers configuration remains unchanged.'']\<rparr>))
       \<and> (unchanged \<longrightarrow>
            list_all (\<lambda>ev. \<not> is_start ev \<and> ev \<noteq> WorkersGenerateCompose)
              (issued (sync_workers_compose rt force_recreate) s))
       \<and> (\<not> isl (fst regenerated) \<and> \<not> unchanged \<longrightarrow>
            issued (sync_workers_compose rt force_recreate) s =
              issued (regenerate_workers_supervisor_conf rt) s @ WorkersGenerateCompose #
                (if fst (outcome rt WorkersGenerateCompose (world (snd regenerated))) = None
                 then [StartService Workers (Some force_recreate)] else [])))"
proof -
  have "sync_workers_compose rt force_recreate s =
            (Inr (), (snd (regenerate_workers_supervisor_conf rt s))\<lparr>calls :=
               calls (snd (regenerate_workers_supervisor_conf rt s))
               @ [Print ''Workers configuration remains unchanged.'']\<rparr>)"
    if "\<not> isl (fst (regenerate_workers_supervisor_conf rt s))"
      and "is_expected_worker_same_as_template rt (world (snd (regenerate_workers_supervisor_conf rt s)))"
    using that
    by (cases "regenerate_workers_supervisor_conf rt s")
       (auto simp: sync_workers_compose_unfold split: sum.splits)
  then show ?thesis
    using sync_workers_compose_quiet [of rt s force_recreate]
      sync_workers_compose_changed [of rt s force_recreate]
    by (simp add: Let_def)
qed

text \<open>
  Two calls in a row, nothing changed in between, on a bench whose comparison reports a
  change each time: the second call generates the workers' compose and starts the worker
  group again.
\<close>

theorem sync_workers_compose_twice_restarts:
  "fst (sync_workers_compose idle False fresh) = Inr ()
   \<and> world (snd (sync_workers_compose idle False fresh)) = world fresh
   \<and> self (snd (sync_workers_compose idle False fresh)) = self fresh
   \<and> issued (sync_workers_compose idle False) (snd (sync_workers_compose idle False fresh)) =
     [ChangeHead ''Regenerating supervisor.conf.'',
      Backup \<lparr>backup_name = ''workers'', backup_dir = ''/benches/shop.localhost/backups''\<rparr>
        ''/benches/shop.localhost/workspace/frappe-bench/config/supervisor.conf'',
      ComposeExec ''frappe'' bench_setup_supervisor_command (Some ''frappe'') (Some ''/workspace/frappe-bench'') True,
      LiveLines [],
      ComposeExec ''frappe'' generate_split_config_command (Some ''frappe'') (Some ''/workspace/frappe-bench'') True,
      LiveLines [],
      WorkersGenerateCompose,
      StartService Workers (Some False)]"
  by (simp add: sync_workers_compose_def regenerate_workers_supervisor_conf_def regenerate_commands_def
      backup_workers_supervisor_conf_def idle_def fresh_def shop_def backup_path_def run_simps)

theorem sync_workers_compose_unchanged_witness:
  "sync_workers_compose workers_unchanged False fresh =
     (Inr (), fresh\<lparr>calls :=
       [ChangeHead ''Regenerating supervisor.conf.'',
        Backup \<lparr>backup_name = ''workers'', backup_dir = ''/benches/shop.localhost/backups''\<rparr>
          ''/benches/shop.localhost/workspace/frappe-bench/config/supervisor.conf'',
        ComposeExec ''frappe'' bench_setup_supervisor_command (Some ''frappe'') (Some ''/workspace/frappe-bench'') True,
        LiveLines [],
        ComposeExec ''frappe'' generate_split_config_command (Some ''frappe'') (Some ''/workspace/frappe-bench'') True,
        LiveLines [],
        Print ''Workers configuration remains unchanged.'']\<rparr>)
   \<and> issued (sync_workers_compose idle True) fresh =
       [ChangeHead ''Regenerating supervisor.conf.'',
        Backup \<lparr>backup_name = ''workers'', backup_dir = ''/benches/shop.localhost/backups''\<rparr>
          ''/benches/shop.localhost/workspace/frappe-bench/config/supervisor.conf'',
        ComposeExec ''frappe'' bench_setup_supervisor_command (Some ''frappe'') (Some ''/workspace/frappe-bench'') True,
        LiveLines [],
        ComposeExec ''frappe'' generate_split_config_command (Some ''frappe'') (Some ''/workspace/frappe-bench'') True,
        LiveLines [],
        WorkersGenerateCompose,
        StartService Workers (Some True)]"
proof -
  let ?regen = "[ChangeHead ''Regenerating supervisor.conf.'',
        Backup \<lparr>backup_name = ''workers'', backup_dir = ''/benches/shop.localhost/backups''\<rparr>
          ''/benches/shop.localhost/workspace/frappe-bench/config/supervisor.conf'',
        ComposeExec ''frappe'' bench_setup_supervisor_command (Some ''frappe'') (Some ''/workspace/frappe-bench'') True,
        LiveLines [],
        ComposeExec ''frappe'' generate_split_config_command (Some ''frappe'') (Some ''/workspace/frappe-bench'') True,
        LiveLines []]"
  have regen: "regenerate_workers_supervisor_conf workers_unchanged fresh =
      (Inr True, fresh\<lparr>calls := ?regen\<rparr>)"
    by (simp add: regenerate_workers_supervisor_conf_def regenerate_commands_def
        backup_workers_supervisor_conf_def workers_unchanged_def idle_def fresh_def shop_def
        backup_path_def run_simps)
  have regen': "regenerate_workers_supervisor_conf idle fresh =
      (Inr True, fresh\<lparr>calls := ?regen\<rparr>)"
    by (simp add: regenerate_workers_supervisor_conf_def regenerate_commands_def
        backup_workers_supervisor_conf_def idle_def fresh_def shop_def
        backup_path_def run_simps)
  have unchanged: "is_expected_worker_same_as_template workers_unchanged w" for w
    by (simp add: workers_unchanged_def)
  have changed: "\<not> is_expected_worker_same_as_template idle w"
    "fst (outcome idle WorkersGenerateCompose w) = None" for w :: unit
    by (simp_all add: idle_def)
  from sync_workers_compose_unchanged [of workers_unchanged fresh False] regen unchanged
  have a: "sync_workers_compose workers_unchanged False fresh =
     (Inr (), fresh\<lparr>calls := ?regen @ [Print ''Workers configuration remains unchanged.'']\<rparr>)"
    by (simp add: Let_def)
  from sync_workers_compose_unchanged [of idle fresh True] regen' changed
  have b: "issued (sync_workers_compose idle True) fresh =
      ?regen @ [WorkersGenerateCompose, StartService Workers (Some True)]"
    by (simp add: Let_def issued_def fresh_def)
  from a b show ?thesis by simp
qed

subsection \<open>Attached secrets\<close>

text \<open>The calls of a sequence are those of its first part, then those of what follows it.\<close>

lemma issued_bind:
  assumes m: "emits_only P m" and f: "\<And>a. emits_only Q (f a)"
  shows "issued (bind m f) s =
     issued m s @ (case m s of (Inl e, s') \<Rightarrow> [] | (Inr a, s') \<Rightarrow> issued (f a) s')"
proof (cases "m s")
  case (Pair r s')
  have c: "calls s' = calls s @ issued m s"
    using emits_only_issued(1) [OF m, of s] Pair by simp
  show ?thesis
  proof (cases r)
    case (Inl e)
    with Pair have "bind m f s = (Inl e, s')" by (simp add: bind_def)
    with Pair Inl c show ?thesis
      unfolding issued_def [of "bind m f"] by simp
  next
    case (Inr a)
    with Pair have run: "bind m f s = f a s'" by (simp add: bind_def)
    have "calls (snd (f a s')) = calls s @ issued m s @ issued (f a) s'"
      using emits_only_issued(1) [OF f, of a s'] c by simp
    with Pair Inr show ?thesis
      unfolding issued_def [of "bind m f"] run by simp
  qed
qed

lemma emits_only_frappe_logs_loop [emits]:
  "(\<And>t. P (BuiltinPrint t)) \<Longrightarrow> (\<And>t. P (StdoutPrint t))
    \<Longrightarrow> emits_only P (frappe_logs_till_start_loop stream fin)"
  by (induction stream fin rule: frappe_logs_till_start_loop.induct)
     (auto intro!: emits split: sum.splits)

lemma keeps_self_frappe_logs_loop [keeps]:
  "keeps_self (frappe_logs_till_start_loop stream fin)"
  by (induction stream fin rule: frappe_logs_till_start_loop.induct)
     (auto intro!: keeps split: sum.splits)

lemma emits_only_stop:
  "emits_only is_stop (remove_attached_secrets_stop rt)"
  unfolding remove_attached_secrets_stop_def
  by (auto intro!: emits simp: is_stop_def)

lemma emits_only_rewrite:
  "emits_only is_rewrite (remove_attached_secrets_rewrite rt)"
  unfolding remove_attached_secrets_rewrite_def
  by (auto intro!: emits simp: is_rewrite_def)

text \<open>Neither the restart nor anything it runs stops a service or rewrites the descriptor.\<close>

lemma emits_only_frappe_logs:
  assumes "\<And>ev. \<not> is_rewrite ev \<Longrightarrow> \<not> is_stop ev \<Longrightarrow> P ev"
  shows "emits_only P (frappe_logs_till_start rt)"
  unfolding frappe_logs_till_start_def
  by (auto intro!: emits assms simp: is_rewrite_def is_stop_def)

lemma emits_only_sync_workers:
  assumes "\<And>ev. \<not> is_rewrite ev \<Longrightarrow> \<not> is_stop ev \<Longrightarrow> P ev"
  shows "emits_only P (sync_workers_compose rt force)"
  unfolding sync_workers_compose_def Let_def
  by (auto intro!: emits emits_only_regenerate assms simp: is_rewrite_def is_stop_def)

lemma emits_only_start:
  assumes "\<And>ev. \<not> is_rewrite ev \<Longrightarrow> \<not> is_stop ev \<Longrightarrow> P ev"
  shows "emits_only P (start rt force)"
  unfolding start_def sync_bench_common_site_config_def common_bench_config_set_def Let_def
  by (auto intro!: emits emits_only_frappe_logs emits_only_sync_workers assms
      simp: is_rewrite_def is_stop_def)

lemma emits_only_restart:
  "emits_only (\<lambda>ev. \<not> is_rewrite ev \<and> \<not> is_stop ev) (remove_attached_secrets_restart rt)"
  unfolding remove_attached_secrets_restart_def
  by (intro emits_only_block) (auto intro!: emits emits_only_frappe_logs emits_only_start
      simp: is_rewrite_def is_stop_def)

lemma keeps_self_stop: "keeps_self (remove_attached_secrets_stop rt)"
  unfolding remove_attached_secrets_stop_def by (auto intro!: keeps)

lemma keeps_self_rewrite: "keeps_self (remove_attached_secrets_rewrite rt)"
  unfolding remove_attached_secrets_rewrite_def by (auto intro!: keeps)

lemma remove_attached_secrets_unfold:
  "remove_attached_secrets rt s =
     block [
       (if running rt Primary (world s) then remove_attached_secrets_stop rt else return ()),
       remove_attached_secrets_rewrite rt,
       (if running rt Primary (world s) then remove_attached_secrets_restart rt else return ()),
       say (Print ''Removed bench attached secrets.'')]
     (s\<lparr>calls := calls s @ [ChangeHead ''Removing bench attached secrets'']\<rparr>)"
  by (simp add: remove_attached_secrets_def bind_def say_def with_world_def Let_def)

lemma stop_returns:
  assumes "\<not> isl (fst (remove_attached_secrets_stop rt s))"
  shows "issued (remove_attached_secrets_stop rt) s =
     StopService Primary (Some [''frappe'']) #
     (if compose_file_exists rt Workers (snd (outcome rt (StopService Primary (Some [''frappe''])) (world s)))
      then [StopService Workers None] else [])"
  using assms
  by (auto simp: remove_attached_secrets_stop_def run_simps split: prod.splits option.splits)

text \<open>
  What \<open>start\<close> issues first: the update of the common site configuration, the start of
  the primary group and, once that has returned and the workers' descriptor exists, the
  start of the worker group.
\<close>

lemma start_workers_step:
  "\<exists>rest. issued (with_world (\<lambda>w.
         if compose_file_exists rt Workers w then block [
           say (ChangeHead ''Starting bench workers services''),
           call rt (StartService Workers (Some force)),
           say (Print ''Started bench workers services.'')]
         else return ())) t =
     (if compose_file_exists rt Workers (world t)
      then [ChangeHead ''Starting bench workers services'', StartService Workers (Some force)]
      else []) @ rest"
  by (auto simp: run_simps split: prod.splits option.splits)

lemma start_begins:
  assumes "path_exists rt (path (self s) @ ''/workspace/frappe-bench/sites/common_site_config.json'') (world s)"
    and "fst (outcome rt (config_update rt (self s) (world s)) (world s)) = None"
  shows "\<exists>rest. issued (start rt force) s =
            config_update rt (self s) (world s) # ChangeHead ''Starting bench services''
              # StartService Primary (Some force) # rest"
    and "fst (outcome rt (StartService Primary (Some force))
               (snd (outcome rt (config_update rt (self s) (world s)) (world s)))) = None \<Longrightarrow>
         \<exists>rest. issued (start rt force) s =
            config_update rt (self s) (world s) # start_calls Primary force @
            (if compose_file_exists rt Workers
                  (snd (outcome rt (StartService Primary (Some force))
                     (snd (outcome rt (config_update rt (self s) (world s)) (world s)))))
             then [ChangeHead ''Starting bench workers services'', StartService Workers (Some force)]
             else []) @ rest"
proof -
  let ?u = "config_update rt (self s) (world s)"
  let ?workers = "with_world (\<lambda>w.
         if compose_file_exists rt Workers w then block [
           say (ChangeHead ''Starting bench workers services''),
           call rt (StartService Workers (Some force)),
           say (Print ''Started bench workers services.'')]
         else return ())"
  let ?after = "block [
       with_world (\<lambda>w.
         if compose_file_exists rt AdminTools w then block [
           say (ChangeHead ''Starting bench admin tools services''),
           call rt (StartService AdminTools (Some force)),
           say (Print ''Started bench admin tools services.'')]
         else return ()),
       say (ChangeHead ''Starting frappe server''),
       frappe_logs_till_start rt,
       say (Print ''Started frappe server.''),
       sync_workers_compose rt False]"
  let ?tail = "bind ?workers (\<lambda>_. ?after)"
  have sync: "with_world (\<lambda>w.
         let global_db_info = services_database_server_info rt w
         in sync_bench_common_site_config rt (db_host global_db_info) (db_port global_db_info)) s
      = call rt ?u s"
    using assms(1)
    by (simp add: sync_bench_common_site_config_def common_bench_config_set_def config_update_def
        with_self_def with_world_def Let_def)
  obtain w1 where w1: "outcome rt ?u (world s) = (None, w1)"
    using assms(2) by (cases "outcome rt ?u (world s)") auto
  obtain r2 w2 where w2: "outcome rt (StartService Primary (Some force)) w1 = (r2, w2)"
    by (cases "outcome rt (StartService Primary (Some force)) w1")
  let ?pre = "[?u, ChangeHead ''Starting bench services'', StartService Primary (Some force)]"
  let ?s3 = "s\<lparr>world := w2, calls := calls s @ ?pre @ [Print ''Started bench services.'']\<rparr>"
  have unfold: "start rt force s =
      bind (with_world (\<lambda>w.
         let global_db_info = services_database_server_info rt w
         in sync_bench_common_site_config rt (db_host global_db_info) (db_port global_db_info)))
       (\<lambda>_. bind (say (ChangeHead ''Starting bench services''))
       (\<lambda>_. bind (call rt (StartService Primary (Some force)))
       (\<lambda>_. bind (say (Print ''Started bench services.'')) (\<lambda>_. ?tail)))) s"
    by (simp add: start_def)
  have after: "emits_only (\<lambda>ev. True) ?after"
    by (intro emits_only_block)
       (auto intro!: emits emits_only_frappe_logs emits_only_sync_workers)
  have workers: "emits_only (\<lambda>ev. True) ?workers"
    by (auto intro!: emits)
  have failed: "issued (start rt force) s = ?pre" if "r2 = Some e" for e
  proof -
    from that w1 w2 have "calls (snd (start rt force s)) = calls s @ ?pre"
      unfolding unfold by (simp add: sync bind_def call_def say_def)
    then show ?thesis by (simp add: issued_def)
  qed
  have returned: "\<exists>rest. issued (start rt force) s =
      ?pre @ Print ''Started bench services.'' #
        (if compose_file_exists rt Workers w2
         then [ChangeHead ''Starting bench workers services'', StartService Workers (Some force)]
         else []) @ rest" if "r2 = None"
  proof -
    from that w1 w2 have run: "start rt force s = ?tail ?s3"
      unfolding unfold by (simp add: sync bind_def call_def say_def)
    have "emits_only (\<lambda>ev. True) ?tail"
      using workers after by (auto intro!: emits_only_bind)
    from emits_only_issued(1) [OF this, of ?s3]
    have "calls (snd (start rt force s)) =
        calls s @ ?pre @ Print ''Started bench services.'' # issued ?tail ?s3"
      unfolding run by simp
    then have whole: "issued (start rt force) s =
        ?pre @ Print ''Started bench services.'' # issued ?tail ?s3"
      unfolding issued_def [of "start rt force"] by simp
    have "issued ?tail ?s3 = issued ?workers ?s3 @
        (case ?workers ?s3 of (Inl e, s') \<Rightarrow> [] | (Inr a, s') \<Rightarrow> issued ((\<lambda>_. ?after) a) s')"
      by (rule issued_bind [OF workers]) (rule after)
    moreover from start_workers_step [of rt force ?s3] obtain more where
      "issued ?workers ?s3 =
        (if compose_file_exists rt Workers w2
         then [ChangeHead ''Starting bench workers services'', StartService Workers (Some force)]
         else []) @ more"
      by auto
    ultimately show ?thesis unfolding whole by auto
  qed
  show "\<exists>rest. issued (start rt force) s =
            ?u # ChangeHead ''Starting bench services'' # StartService Primary (Some force) # rest"
  proof (cases r2)
    case None
    from returned [OF this] show ?thesis by auto
  next
    case (Some e)
    from failed [OF this] show ?thesis by auto
  qed
  show "\<exists>rest. issued (start rt force) s =
            ?u # start_calls Primary force @
            (if compose_file_exists rt Workers
                  (snd (outcome rt (StartService Primary (Some force)) (snd (outcome rt ?u (world s)))))
             then [ChangeHead ''Starting bench workers services'', StartService Workers (Some force)]
             else []) @ rest"
    if "fst (outcome rt (StartService Primary (Some force)) (snd (outcome rt ?u (world s)))) = None"
  proof -
    from that w1 w2 have "r2 = None" by simp
    from returned [OF this] w1 w2 show ?thesis by (simp add: start_calls_def)
  qed
qed

lemma restart_begins_with_start:
  "\<exists>rest. issued (remove_attached_secrets_restart rt) s = issued (start rt False) s @ rest"
proof -
  have "issued (remove_attached_secrets_restart rt) s =
      issued (start rt False) s @
      (case start rt False s of (Inl e, s') \<Rightarrow> []
       | (Inr a, s') \<Rightarrow> issued ((\<lambda>_. block [
            say (ChangeHead ''Waiting till bench server has created.''),
            frappe_logs_till_start rt,
            say (Print ''Bench server has created.'')]) a) s')"
    unfolding remove_attached_secrets_restart_def block.simps
    by (rule issued_bind [where P = "\<lambda>ev. True" and Q = "\<lambda>ev. True"])
       (auto intro!: emits emits_only_start emits_only_frappe_logs)
  then show ?thesis by blast
qed

lemma is_rewrite_not_stop_start: "is_rewrite ev \<Longrightarrow> \<not> is_stop ev \<and> \<not> is_start ev"
  by (cases ev) (simp_all add: is_rewrite_def is_stop_def is_start_def)

lemma is_display_not_stop_start: "is_display ev \<Longrightarrow> \<not> is_stop ev \<and> \<not> is_start ev"
  by (cases ev) (simp_all add: is_display_def is_stop_def is_start_def)



end
